theory Spec2Isabelle
  imports Complex_Main
begin

section \<open>Regular expressions with Python's backtracking semantics\<close>

text \<open>
  The analyzer is driven by compiled \<^verbatim>\<open>re\<close> patterns. The fragment of the pattern
  language that the source uses is embedded as a datatype and interpreted by a
  backtracking matcher that tries the alternatives in Python's priority order
  (greedy quantifiers take the longest repetition first, lazy ones the shortest) and
  returns the first overall success, with the text captured by each group.

  Text is 8-bit: \<^verbatim>\<open>\d\<close>, \<^verbatim>\<open>\w\<close> and \<^verbatim>\<open>\s\<close> are the ASCII classes (Python's
  \<^verbatim>\<open>str\<close> patterns also accept non-ASCII digits, letters and spaces).
  Every quantifier of the source's patterns is applied to a single-character class,
  so \<open>Star\<close>, \<open>Plus\<close> and \<open>LazyStar\<close> take a class.
\<close>

datatype citem = C char | Rng char char | D | W | S

datatype cls = Set "citem list" | NSet "citem list" | Dot | DotAll

definition is_digit :: "char \<Rightarrow> bool" where
  "is_digit c = (let n = (of_char c :: nat) in 48 \<le> n \<and> n \<le> 57)"

definition is_word :: "char \<Rightarrow> bool" where
  "is_word c = (let n = (of_char c :: nat) in
     (48 \<le> n \<and> n \<le> 57) \<or> (65 \<le> n \<and> n \<le> 90) \<or> n = 95 \<or> (97 \<le> n \<and> n \<le> 122))"

definition is_space :: "char \<Rightarrow> bool" where
  "is_space c = (let n = (of_char c :: nat) in (9 \<le> n \<and> n \<le> 13) \<or> (28 \<le> n \<and> n \<le> 32))"

fun in_item :: "citem \<Rightarrow> char \<Rightarrow> bool" where
  "in_item (C a) c = (c = a)"
| "in_item (Rng a b) c = ((of_char a :: nat) \<le> of_char c \<and> (of_char c :: nat) \<le> of_char b)"
| "in_item D c = is_digit c"
| "in_item W c = is_word c"
| "in_item S c = is_space c"

fun in_cls :: "cls \<Rightarrow> char \<Rightarrow> bool" where
  "in_cls (Set is) c = list_ex (\<lambda>i. in_item i c) is"
| "in_cls (NSet is) c = (\<not> list_ex (\<lambda>i. in_item i c) is)"
| "in_cls Dot c = (c \<noteq> CHR 0x0A)"
| "in_cls DotAll c = True"

datatype re =
    Str string
  | Cl cls
  | Seq re re
  | Alt re re
  | Opt re
  | Star cls
  | Plus cls
  | LazyStar cls
  | Grp nat re
  | Eol

text \<open>
  The matcher works on a stack of pending pieces (the continuation of the match).
  \<open>Close i s0\<close> marks the end of group \<open>i\<close>, which was entered when the remaining
  input was \<open>s0\<close>.
\<close>

datatype frame = R re | Close nat string

type_synonym caps = "(nat \<times> string) list"

fun weight :: "re \<Rightarrow> nat" where
  "weight (Str s) = Suc (length s)"
| "weight (Cl c) = 1"
| "weight (Seq a b) = Suc (weight a + weight b)"
| "weight (Alt a b) = Suc (weight a + weight b)"
| "weight (Opt a) = Suc (weight a)"
| "weight (Star c) = 1"
| "weight (Plus c) = 3"
| "weight (LazyStar c) = 1"
| "weight (Grp i a) = Suc (Suc (weight a))"
| "weight Eol = 1"

fun fweight :: "frame \<Rightarrow> nat" where
  "fweight (R r) = weight r"
| "fweight (Close i s) = 1"

function (sequential) run :: "frame list \<Rightarrow> string \<Rightarrow> caps \<Rightarrow> (string \<times> caps) option" where
  "run [] s c = Some (s, c)"
| "run (Close i s0 # k) s c = run k s ((i, take (length s0 - length s) s0) # c)"
| "run (R (Str []) # k) s c = run k s c"
| "run (R (Str (a # as)) # k) [] c = None"
| "run (R (Str (a # as)) # k) (x # xs) c = (if x = a then run (R (Str as) # k) xs c else None)"
| "run (R (Cl cl) # k) [] c = None"
| "run (R (Cl cl) # k) (x # xs) c = (if in_cls cl x then run k xs c else None)"
| "run (R (Seq a b) # k) s c = run (R a # R b # k) s c"
| "run (R (Alt a b) # k) s c =
     (case run (R a # k) s c of Some r \<Rightarrow> Some r | None \<Rightarrow> run (R b # k) s c)"
| "run (R (Opt a) # k) s c =
     (case run (R a # k) s c of Some r \<Rightarrow> Some r | None \<Rightarrow> run k s c)"
| "run (R (Star cl) # k) [] c = run k [] c"
| "run (R (Star cl) # k) (x # xs) c =
     (if in_cls cl x
      then (case run (R (Star cl) # k) xs c of Some r \<Rightarrow> Some r | None \<Rightarrow> run k (x # xs) c)
      else run k (x # xs) c)"
| "run (R (Plus cl) # k) s c = run (R (Cl cl) # R (Star cl) # k) s c"
| "run (R (LazyStar cl) # k) [] c = run k [] c"
| "run (R (LazyStar cl) # k) (x # xs) c =
     (case run k (x # xs) c of Some r \<Rightarrow> Some r
      | None \<Rightarrow> if in_cls cl x then run (R (LazyStar cl) # k) xs c else None)"
| "run (R (Grp i a) # k) s c = run (R a # Close i s # k) s c"
| "run (R Eol # k) s c = (if s = [] \<or> s = [CHR 0x0A] then run k s c else None)"
  by pat_completeness auto
termination
  by (relation "measures [\<lambda>(k, s, c). length s, \<lambda>(k, s, c). sum_list (map fweight k)]") auto

fun seqs :: "re list \<Rightarrow> re" where
  "seqs [] = Str []"
| "seqs [r] = r"
| "seqs (r # rs) = Seq r (seqs rs)"

fun alts :: "re list \<Rightarrow> re" where
  "alts [] = Str []"
| "alts [r] = r"
| "alts (r # rs) = Alt r (alts rs)"

text \<open>\<^verbatim>\<open>pattern.match(s)\<close>: the pattern must match at the start of \<open>s\<close>.\<close>

definition re_match :: "re \<Rightarrow> string \<Rightarrow> caps option" where
  "re_match r s = map_option snd (run [R r] s [])"

text \<open>\<^verbatim>\<open>pattern.search(s)\<close>: the leftmost position of \<open>s\<close> where the pattern matches.\<close>

fun re_search :: "re \<Rightarrow> string \<Rightarrow> caps option" where
  "re_search r [] = map_option snd (run [R r] [] [])"
| "re_search r (x # xs) =
     (case run [R r] (x # xs) [] of Some (rest, c) \<Rightarrow> Some c | None \<Rightarrow> re_search r xs)"

text \<open>\<^verbatim>\<open>m.group(i)\<close>: \<open>None\<close> when the group took no part in the match.\<close>

definition group :: "caps \<Rightarrow> nat \<Rightarrow> string option" where
  "group c i = map_of c i"

text \<open>
  The text of a group that takes part in every match of its pattern; also the value of
  \<^verbatim>\<open>m.group(i) if m.group(i) else ""\<close>.
\<close>

definition grp :: "caps \<Rightarrow> nat \<Rightarrow> string" where
  "grp c i = (case group c i of Some g \<Rightarrow> g | None \<Rightarrow> [])"

definition digit :: cls where "digit = Set [D]"
definition word :: cls where "word = Set [W]"
definition space :: cls where "space = Set [S]"
definition nonspace :: cls where "nonspace = NSet [S]"

section \<open>Strings, numbers and timestamps as Python has them\<close>

datatype error = ValueError

text \<open>\<^verbatim>\<open>str.rstrip()\<close> and \<^verbatim>\<open>str.strip()\<close> without argument remove white space.\<close>

definition rstrip :: "string \<Rightarrow> string" where
  "rstrip s = rev (dropWhile is_space (rev s))"

definition strip :: "string \<Rightarrow> string" where
  "strip s = rstrip (dropWhile is_space s)"

text \<open>
  \<^verbatim>\<open>int(s)\<close> on a string of decimal digits (every call site passes the capture of a
  \<^verbatim>\<open>\d+\<close> group, possibly with a trailing space that \<^verbatim>\<open>strip\<close> removed).
  Python's limit of 4300 digits for the conversion is outside the model.
\<close>

definition digit_val :: "char \<Rightarrow> nat" where
  "digit_val c = of_char c - 48"

definition py_int :: "string \<Rightarrow> int" where
  "py_int s = int (foldl (\<lambda>a c. 10 * a + digit_val c) 0 s)"

text \<open>
  \<^verbatim>\<open>float(s)\<close> on the capture of \<^verbatim>\<open>[0-9.]+\<close>: digits with at most one point and at
  least one digit, otherwise \<^verbatim>\<open>ValueError\<close>. The value is kept exact (a real number):
  binary rounding is not modelled.
\<close>

definition py_float :: "string \<Rightarrow> error + real" where
  "py_float s =
     (let ip = takeWhile is_digit s; rest = dropWhile is_digit s in
      case rest of
        [] \<Rightarrow> if ip = [] then Inl ValueError else Inr (real_of_int (py_int ip))
      | p # fp \<Rightarrow>
          if p = CHR ''.'' \<and> list_all is_digit fp \<and> (ip \<noteq> [] \<or> fp \<noteq> [])
          then Inr (real_of_int (py_int (ip @ fp)) / 10 ^ length fp)
          else Inl ValueError)"

record datetime =
  year :: nat
  month :: nat
  day :: nat
  hour :: nat
  minute :: nat
  second :: nat
  microsecond :: nat

definition is_leap :: "nat \<Rightarrow> bool" where
  "is_leap y = (y mod 4 = 0 \<and> (y mod 100 \<noteq> 0 \<or> y mod 400 = 0))"

definition days_in_month :: "nat \<Rightarrow> nat \<Rightarrow> nat" where
  "days_in_month y m =
     (if m = 2 then (if is_leap y then 29 else 28)
      else if m = 4 \<or> m = 6 \<or> m = 9 \<or> m = 11 then 30 else 31)"

definition days_before_year :: "nat \<Rightarrow> nat" where
  "days_before_year y = (let p = y - 1 in p * 365 + p div 4 - p div 100 + p div 400)"

definition days_before_month :: "nat \<Rightarrow> nat \<Rightarrow> nat" where
  "days_before_month y m = sum_list (map (days_in_month y) [1..<m])"

text \<open>
  The position of a timestamp on the time line, in microseconds since 0001-01-01, as
  \<^verbatim>\<open>datetime\<close> subtraction and comparison use it.
\<close>

definition to_us :: "datetime \<Rightarrow> int" where
  "to_us t =
     int ((((days_before_year (year t) + days_before_month (year t) (month t) + day t) * 24
            + hour t) * 60 + minute t) * 60 + second t) * 1000000 + int (microsecond t)"

text \<open>\<^verbatim>\<open>(a - b).total_seconds()\<close>, exact.\<close>

definition total_seconds :: "datetime \<Rightarrow> datetime \<Rightarrow> real" where
  "total_seconds a b = real_of_int (to_us a - to_us b) / 1000000"

text \<open>
  \<^verbatim>\<open>datetime.strptime(s, "%m/%d/%y %H:%M:%S.%f")\<close> on a string of the shape that
  group 1 of \<^verbatim>\<open>LINE_PATTERN\<close> captures. The fields must be a month 01-12, a day that
  exists in that month, an hour 00-23, a minute and a second 00-59; anything else
  raises \<^verbatim>\<open>ValueError\<close>. Two-digit years below 69 are in 2000-2068, the others in
  1969-1999.
\<close>

definition two :: "char \<Rightarrow> char \<Rightarrow> nat" where
  "two a b = 10 * digit_val a + digit_val b"

fun strptime :: "string \<Rightarrow> error + datetime" where
  "strptime [m1, m2, s1, d1, d2, s2, y1, y2, s3, h1, h2, s4, n1, n2, s5, c1, c2, s6, f1, f2, f3] =
     (let mo = two m1 m2; dd = two d1 d2; yy = two y1 y2; hh = two h1 h2; mi = two n1 n2;
          ss = two c1 c2; ms = 100 * digit_val f1 + two f2 f3;
          yr = (if yy < 69 then 2000 + yy else 1900 + yy)
      in if list_all is_digit [m1, m2, d1, d2, y1, y2, h1, h2, n1, n2, c1, c2, f1, f2, f3]
            \<and> [s1, s2, s3, s4, s5, s6] = ''// ::.''
            \<and> 1 \<le> mo \<and> mo \<le> 12 \<and> 1 \<le> dd \<and> dd \<le> days_in_month yr mo
            \<and> hh \<le> 23 \<and> mi \<le> 59 \<and> ss \<le> 59
         then Inr \<lparr>year = yr, month = mo, day = dd, hour = hh, minute = mi, second = ss,
                   microsecond = 1000 * ms\<rparr>
         else Inl ValueError)"
| "strptime s = Inl ValueError"

section \<open>Ingestion: entries, directives, the line parser\<close>

record log_entry =
  line_number :: int
  timestamp :: datetime
  category :: string
  message :: string
  is_expanded :: bool
  expansion_count :: int
  source_file :: string

record repeat_directive =
  line_count :: int
  repeat_count :: int
  rd_line_number :: int

datatype parse_result = Entry log_entry | Directive repeat_directive | Nothing

definition REPEAT_PATTERN :: re where
  "REPEAT_PATTERN = seqs
     [Plus space, Str ''(Above '', Opt (Grp 1 (Seq (Plus digit) (Str '' ''))), Str ''Line'',
      Opt (Str ''s''), Str '' Repeated '', Grp 2 (Plus digit), Str '' Time'', Opt (Str ''s''),
      Str '')'', Eol]"

definition LINE_PATTERN :: re where
  "LINE_PATTERN = seqs
     [Grp 1 (seqs [Cl digit, Cl digit, Str ''/'', Cl digit, Cl digit, Str ''/'', Cl digit, Cl digit,
                   Str '' '', Cl digit, Cl digit, Str '':'', Cl digit, Cl digit, Str '':'',
                   Cl digit, Cl digit, Str ''.'', Cl digit, Cl digit, Cl digit]),
      Str '' '',
      Grp 2 (alts [Str ''TCP/IP'', Str ''DLL-IN'', Str ''DLL-EX'', Str ''SERIAL'', Str ''SVREPS'',
                   Str ''METRIC'', Str ''MTXPOS'']),
      Str '' '',
      Grp 3 (Star DotAll),
      Eol]"

text \<open>
  \<^verbatim>\<open>LogParser.parse_line\<close>. Both patterns are applied with \<^verbatim>\<open>match\<close>, which anchors
  them at the start of the line. The call of \<^verbatim>\<open>strptime\<close> is not guarded, so its
  \<^verbatim>\<open>ValueError\<close> leaves the function.
\<close>

definition parse_line :: "string \<Rightarrow> string \<Rightarrow> int \<Rightarrow> error + parse_result" where
  "parse_line src raw lnum =
     (case re_match REPEAT_PATTERN raw of
        Some m \<Rightarrow>
          Inr (Directive
            \<lparr>line_count = (case group m 1 of Some g \<Rightarrow> py_int (strip g) | None \<Rightarrow> 1),
             repeat_count = py_int (grp m 2),
             rd_line_number = lnum\<rparr>)
      | None \<Rightarrow>
         (case re_match LINE_PATTERN raw of
            Some m \<Rightarrow>
              (case strptime (grp m 1) of
                 Inl e \<Rightarrow> Inl e
               | Inr ts \<Rightarrow>
                   Inr (Entry \<lparr>line_number = lnum, timestamp = ts, category = grp m 2,
                               message = rstrip (grp m 3), is_expanded = False,
                               expansion_count = 1, source_file = src\<rparr>))
          | None \<Rightarrow> Inr Nothing))"

section \<open>Ingestion: the repeat expander\<close>

text \<open>
  \<^verbatim>\<open>deque(maxlen=n).append(x)\<close>: the oldest element leaves a full buffer first (and
  nothing is kept when \<open>n = 0\<close>).
\<close>

definition deque_append :: "nat \<Rightarrow> 'a list \<Rightarrow> 'a \<Rightarrow> 'a list" where
  "deque_append maxlen buf x = (let b = buf @ [x] in drop (length b - maxlen) b)"

text \<open>
  The slice \<^verbatim>\<open>xs[i:]\<close> for any integer \<open>i\<close>: a negative start counts from the end
  and is clamped at the first element, a non-negative one counts from the front.
\<close>

definition slice_from :: "int \<Rightarrow> 'a list \<Rightarrow> 'a list" where
  "slice_from i xs =
     (if i < 0 then drop (nat (max 0 (int (length xs) + i))) xs else drop (nat i) xs)"

definition expanded_copy :: "int \<Rightarrow> log_entry \<Rightarrow> log_entry" where
  "expanded_copy rc l =
     \<lparr>line_number = line_number l, timestamp = timestamp l, category = category l,
      message = message l, is_expanded = True, expansion_count = rc,
      source_file = source_file l\<rparr>"

text \<open>
  What one \<^verbatim>\<open>RepeatDirective\<close> yields from the buffer: \<^verbatim>\<open>range(repeat_count)\<close> is
  empty for a count below 1.
\<close>

definition expand_directive :: "log_entry list \<Rightarrow> repeat_directive \<Rightarrow> log_entry list" where
  "expand_directive buf d =
     (let source_lines = slice_from (- line_count d) buf in
      if source_lines = [] then []
      else concat (replicate (nat (repeat_count d)) (map (expanded_copy (repeat_count d)) source_lines)))"

datatype item = ItemEntry log_entry | ItemDirective repeat_directive

text \<open>
  One round of the loop of \<^verbatim>\<open>RepeatExpander.process\<close>: the buffer after the item and
  the entries yielded for it.
\<close>

fun expander_step :: "nat \<Rightarrow> log_entry list \<Rightarrow> item \<Rightarrow> log_entry list \<times> log_entry list" where
  "expander_step maxlen buf (ItemDirective d) = (buf, expand_directive buf d)"
| "expander_step maxlen buf (ItemEntry e) = (deque_append maxlen buf e, [e])"

fun expander_run :: "nat \<Rightarrow> log_entry list \<Rightarrow> item list \<Rightarrow> log_entry list \<times> log_entry list" where
  "expander_run maxlen buf [] = (buf, [])"
| "expander_run maxlen buf (it # its) =
     (let (buf', out) = expander_step maxlen buf it;
          (buf'', outs) = expander_run maxlen buf' its
      in (buf'', out @ outs))"

text \<open>\<^verbatim>\<open>RepeatExpander(max_lookback).process(items)\<close> on a fresh expander.\<close>

definition process :: "nat \<Rightarrow> item list \<Rightarrow> log_entry list" where
  "process max_lookback items = snd (expander_run max_lookback [] items)"

section \<open>Segmentation: the SCAT state machine\<close>

record scat_state_change =
  sc_timestamp :: datetime
  sc_new_state :: string
  sc_old_state :: string
  sc_alive_status :: "int option"

record scat_state_machine =
  current_state :: string
  alive_status :: int
  state_history :: "scat_state_change list"
  alive_history :: "(datetime \<times> int \<times> string) list"

definition SCAT_STATE_PATTERN :: re where
  "SCAT_STATE_PATTERN = seqs
     [Str ''>>>>>>SCATState = '', Grp 1 (Plus nonspace), Plus space, Str ''- was '',
      Grp 2 (Plus nonspace)]"

definition ALIVE_PATTERN :: re where
  "ALIVE_PATTERN = seqs
     [Str ''SCATAliveInt = '', Grp 1 (Cl digit), Str '' ('', Grp 2 (Plus word), Str '')'']"

text \<open>\<^verbatim>\<open>SCATStateMachine.__init__\<close>: the alive status starts at 9 (ReportScatNone).\<close>

definition scat_init :: scat_state_machine where
  "scat_init = \<lparr>current_state = ''StateNone'', alive_status = 9, state_history = [],
                alive_history = []\<rparr>"

text \<open>The two halves of \<^verbatim>\<open>SCATStateMachine.process_entry\<close>, in the order of the source.\<close>

definition track_state :: "scat_state_machine \<Rightarrow> log_entry \<Rightarrow> scat_state_machine" where
  "track_state sm entry =
     (case re_search SCAT_STATE_PATTERN (message entry) of
        Some m \<Rightarrow>
          (let new_state = strip (grp m 1); old_state = strip (grp m 2) in
           sm\<lparr>current_state := new_state,
              state_history := state_history sm @
                [\<lparr>sc_timestamp = timestamp entry, sc_new_state = new_state,
                  sc_old_state = old_state, sc_alive_status = None\<rparr>]\<rparr>)
      | None \<Rightarrow> sm)"

text \<open>The status and the name that the alive marker of a message carries, if it has one.\<close>

definition alive_marker :: "string \<Rightarrow> (int \<times> string) option" where
  "alive_marker msg =
     (case re_search ALIVE_PATTERN msg of
        Some m \<Rightarrow> Some (py_int (grp m 1), grp m 2)
      | None \<Rightarrow> None)"

definition track_alive :: "scat_state_machine \<Rightarrow> log_entry \<Rightarrow> scat_state_machine" where
  "track_alive sm entry =
     (case alive_marker (message entry) of
        Some (status, name) \<Rightarrow>
          (if status \<noteq> alive_status sm
           then sm\<lparr>alive_status := status,
                   alive_history := alive_history sm @ [(timestamp entry, status, name)]\<rparr>
           else sm)
      | None \<Rightarrow> sm)"

definition process_entry :: "scat_state_machine \<Rightarrow> log_entry \<Rightarrow> scat_state_machine" where
  "process_entry sm entry = track_alive (track_state sm entry) entry"

text \<open>A fresh state machine fed a sequence of entries (\<^verbatim>\<open>for entry in all_entries\<close>).\<close>

definition scat_run :: "log_entry list \<Rightarrow> scat_state_machine" where
  "scat_run entries = foldl process_entry scat_init entries"

text \<open>The statuses of a history, in order.\<close>

definition statuses :: "(datetime \<times> int \<times> string) list \<Rightarrow> int list" where
  "statuses h = map (\<lambda>(ts, status, name). status) h"

type_synonym dead_period = "datetime \<times> datetime \<times> real"

text \<open>The loop of \<^verbatim>\<open>get_dead_periods\<close>: the open dead start and the periods so far.\<close>

fun dead_periods_loop ::
  "(datetime \<times> int \<times> string) list \<Rightarrow> datetime option \<Rightarrow> dead_period list
     \<Rightarrow> datetime option \<times> dead_period list" where
  "dead_periods_loop [] dead_start periods = (dead_start, periods)"
| "dead_periods_loop ((ts, status, name) # rest) dead_start periods =
     (case dead_start of
        None \<Rightarrow>
          (if status = 0 then dead_periods_loop rest (Some ts) periods
           else dead_periods_loop rest None periods)
      | Some ds \<Rightarrow>
          (if status \<noteq> 0
           then dead_periods_loop rest None (periods @ [(ds, ts, total_seconds ts ds)])
           else dead_periods_loop rest (Some ds) periods))"

definition get_dead_periods :: "scat_state_machine \<Rightarrow> dead_period list" where
  "get_dead_periods sm =
     (case dead_periods_loop (alive_history sm) None [] of
        (Some ds, periods) \<Rightarrow>
          (if alive_history sm \<noteq> []
           then (let last_ts = fst (last (alive_history sm)) in
                 periods @ [(ds, last_ts, total_seconds last_ts ds)])
           else periods)
      | (None, periods) \<Rightarrow> periods)"

section \<open>Segmentation: health checks\<close>

text \<open>\<^verbatim>\<open>HealthCheckData\<close>, with the defaults of the dataclass.\<close>

record health_check_data =
  hc_start_line :: int
  hc_end_line :: int
  hc_start_time :: "datetime option"
  hc_end_time :: "datetime option"
  check_type :: string
  target_host :: string
  success :: bool
  error_code :: string
  http_status :: string
  latency_ms :: real

definition HealthCheckData :: health_check_data where
  "HealthCheckData =
     \<lparr>hc_start_line = 0, hc_end_line = 0, hc_start_time = None, hc_end_time = None,
      check_type = '''', target_host = '''', success = False, error_code = '''',
      http_status = '''', latency_ms = 0\<rparr>"

definition EXCHANGE_INFO_SEND :: re where
  "EXCHANGE_INFO_SEND = seqs
     [Str ''ServerEPS_LSExchangeInfo Company['', Grp 1 (Plus digit), Str '']'', LazyStar Dot,
      Str ''Addr['', Grp 2 (Plus (NSet [C (CHR '']'')])), Str '']'']"

definition EXCHANGE_INFO_RESULT :: re where
  "EXCHANGE_INFO_RESULT = seqs
     [Str ''after ServerEPS_LSExchangeInfo ErrorCode = '', Grp 1 (Plus digit),
      Str '' ErrorStr='', Grp 2 (Star Dot)]"

definition MONITORING_RESULT :: re where
  "MONITORING_RESULT = seqs
     [Str ''after ServerEPS_LaneServiceStatusUpload ErrorCode ('', Grp 1 (Plus digit),
      Str '') ErrorStr('', Grp 2 (Star (NSet [C (CHR '')'')])), Str '')'']"

definition LOGIN_RESULT :: re where
  "LOGIN_RESULT = seqs [Str ''Login result = '', Grp 1 (Plus word)]"

definition HTTP_ERROR :: re where
  "HTTP_ERROR = seqs
     [Str ''HTTP/1.'', Cl digit, Str '' '', Grp 1 (seqs [Cl digit, Cl digit, Cl digit])]"

definition SOCKET_ERROR :: re where
  "SOCKET_ERROR = seqs [Str ''Socket Error # '', Grp 1 (Plus digit)]"

text \<open>
  The HTTP status or the socket error found in an error string; the socket error, when
  there is one, is assigned last.
\<close>

definition set_http_status :: "string \<Rightarrow> health_check_data \<Rightarrow> health_check_data" where
  "set_http_status error_str hc =
     (let hc1 = (case re_search HTTP_ERROR error_str of
                   Some hm \<Rightarrow> hc\<lparr>http_status := grp hm 1\<rparr>
                 | None \<Rightarrow> hc)
      in case re_search SOCKET_ERROR error_str of
           Some sm \<Rightarrow> hc1\<lparr>http_status := ''Socket_'' @ grp sm 1\<rparr>
         | None \<Rightarrow> hc1)"

text \<open>
  The rest of a turn, when the entry neither starts nor resolves an ExchangeInfo record:
  a MonitoringStatus result or a Login result is a record of its own.
\<close>

definition health_other ::
  "health_check_data option \<Rightarrow> string \<Rightarrow> log_entry
     \<Rightarrow> health_check_data option \<times> health_check_data list" where
  "health_other current msg entry =
     (case re_search MONITORING_RESULT msg of
        Some m \<Rightarrow>
          (current,
           [set_http_status (grp m 2)
              (HealthCheckData\<lparr>hc_start_line := line_number entry,
                                hc_start_time := Some (timestamp entry),
                                hc_end_line := line_number entry,
                                hc_end_time := Some (timestamp entry),
                                check_type := ''MonitoringStatus'',
                                error_code := grp m 1,
                                success := (grp m 1 = ''0'')\<rparr>)])
      | None \<Rightarrow>
          (case re_search LOGIN_RESULT msg of
             Some m \<Rightarrow>
               (current,
                [HealthCheckData\<lparr>hc_start_line := line_number entry,
                                  hc_start_time := Some (timestamp entry),
                                  hc_end_line := line_number entry,
                                  hc_end_time := Some (timestamp entry),
                                  check_type := ''Login'',
                                  success := (grp m 1 = ''lrNothingNew'' \<or> grp m 1 = ''lrWaitForFiles''),
                                  error_code := grp m 1\<rparr>])
           | None \<Rightarrow> (current, [])))"

text \<open>
  One turn of the loop of \<^verbatim>\<open>HealthSegmenter.process_entries\<close>: the open record after
  the entry, and the records that the entry yields.
\<close>

definition health_step ::
  "health_check_data option \<Rightarrow> log_entry \<Rightarrow> health_check_data option \<times> health_check_data list"
  where
  "health_step current entry =
     (if category entry \<noteq> ''SVREPS'' then (current, [])
      else
        (let msg = message entry in
         case re_search EXCHANGE_INFO_SEND msg of
           Some m \<Rightarrow>
             (Some (HealthCheckData\<lparr>hc_start_line := line_number entry,
                                     hc_start_time := Some (timestamp entry),
                                     check_type := ''ExchangeInfo'',
                                     target_host := grp m 2\<rparr>),
              (case current of Some c \<Rightarrow> [c] | None \<Rightarrow> []))
         | None \<Rightarrow>
             (case (re_search EXCHANGE_INFO_RESULT msg, current) of
                (Some m, Some c) \<Rightarrow>
                  (if check_type c = ''ExchangeInfo''
                   then (let error_code = grp m 1;
                             error_str = strip (grp m 2);
                             c1 = c\<lparr>hc_end_line := line_number entry,
                                    hc_end_time := Some (timestamp entry),
                                    error_code := error_code,
                                    success := (error_code = ''0'')\<rparr>;
                             c2 = (case hc_start_time c1 of
                                     Some st \<Rightarrow>
                                       c1\<lparr>latency_ms := total_seconds (timestamp entry) st * 1000\<rparr>
                                   | None \<Rightarrow> c1)
                         in (None, [set_http_status error_str c2]))
                   else health_other current msg entry)
              | _ \<Rightarrow> health_other current msg entry)))"

text \<open>The flush at the end of the stream follows the loop.\<close>

fun health_loop :: "log_entry list \<Rightarrow> health_check_data option \<Rightarrow> health_check_data list" where
  "health_loop [] current = (case current of Some c \<Rightarrow> [c] | None \<Rightarrow> [])"
| "health_loop (entry # entries) current =
     (case health_step current entry of
        (current', yielded) \<Rightarrow> yielded @ health_loop entries current')"

definition health_process_entries :: "log_entry list \<Rightarrow> health_check_data list" where
  "health_process_entries entries = health_loop entries None"

text \<open>An entry that carries the start marker of an ExchangeInfo check.\<close>

definition is_exchange_start :: "log_entry \<Rightarrow> bool" where
  "is_exchange_start e =
     (category e = ''SVREPS'' \<and> re_search EXCHANGE_INFO_SEND (message e) \<noteq> None)"

section \<open>Segmentation: transactions\<close>

text \<open>\<^verbatim>\<open>TransactionData\<close>, with the defaults of the dataclass.\<close>

record transaction_data =
  start_line :: int
  end_line :: int
  start_time :: "datetime option"
  end_time :: "datetime option"
  entry_count :: int
  sequence_number :: string
  card_type :: string
  entry_method :: string
  pan_last4 :: string
  aid :: string
  app_label :: string
  tac_sequence :: string
  cvm_result :: string
  response_code :: string
  host_response_code :: string
  authorization_number :: string
  amount_cents :: int
  cashback_cents :: int
  host_url :: string
  host_latency_ms :: real
  se_send_time :: "datetime option"
  se_recv_time :: "datetime option"
  tvr :: string
  is_quickchip :: bool
  is_fallback :: bool
  serial_error_count :: int
  state_sequence :: "string list"

definition TransactionData :: transaction_data where
  "TransactionData =
     \<lparr>start_line = 0, end_line = 0, start_time = None, end_time = None, entry_count = 0,
      sequence_number = '''', card_type = '''', entry_method = '''', pan_last4 = '''',
      aid = '''', app_label = '''', tac_sequence = '''', cvm_result = '''',
      response_code = '''', host_response_code = '''', authorization_number = '''',
      amount_cents = 0, cashback_cents = 0, host_url = '''', host_latency_ms = 0,
      se_send_time = None, se_recv_time = None, tvr = '''', is_quickchip = False,
      is_fallback = False, serial_error_count = 0, state_sequence = []\<rparr>"

text \<open>The property \<^verbatim>\<open>TransactionData.is_approved\<close>.\<close>

definition is_approved :: "transaction_data \<Rightarrow> bool" where
  "is_approved txn = (response_code txn = ''AA'')"

datatype transaction_state = IDLE | IN_PROGRESS | ONLINE_PENDING | COMPLETING

text \<open>The entries of \<^verbatim>\<open>PATTERNS\<close> that the segmenter searches for.\<close>

definition PATTERNS_begin_order :: re where
  "PATTERNS_begin_order = Str ''MTX_POS_BeginOrder''"

definition PATTERNS_tender_type_set :: re where
  "PATTERNS_tender_type_set = seqs
     [Str ''MTX_POS_SET_TenderTypePOS = '',
      Cl (Set [Rng (CHR ''0'') (CHR ''9''), Rng (CHR ''A'') (CHR ''F'')])]"

definition PATTERNS_tender_type :: re where
  "PATTERNS_tender_type = seqs
     [Str ''TenderTypeMTXi = '', Plus nonspace, Str '' <'',
      Grp 1 (Seq (Plus word) (Star (Set [S, W]))), Str ''>'']"

definition PATTERNS_card_entry :: re where
  "PATTERNS_card_entry = seqs [Str ''CardEntryType = '', Grp 1 (Cl word)]"

definition PATTERNS_se_send :: re where
  "PATTERNS_se_send = seqs
     [Str ''SE_SEND(TimeOutSecs '', Grp 1 (Plus digit), Str '')'', LazyStar Dot, Str ''URL['',
      Grp 2 (Plus (NSet [C (CHR '']'')])), Str '']'', LazyStar Dot, Str ''Ae'',
      Grp 3 (Plus digit)]"

definition PATTERNS_se_recv :: re where
  "PATTERNS_se_recv = seqs
     [Str ''SE_RECV('', Grp 1 (Plus (Set [Rng (CHR ''0'') (CHR ''9''), C (CHR ''.'')])),
      Str '' secs)'', LazyStar Dot, Str ''Ae'', Grp 2 (Plus digit)]"

definition PATTERNS_response_code :: re where
  "PATTERNS_response_code = seqs [Str ''ResponseCode = '', Grp 1 (Plus word)]"

definition PATTERNS_host_response :: re where
  "PATTERNS_host_response = seqs [Str ''HostResponseCode = '', Grp 1 (Plus digit)]"

definition PATTERNS_auth_number :: re where
  "PATTERNS_auth_number = seqs [Str ''AuthorizationNumber = '', Grp 1 (Plus word)]"

definition PATTERNS_end_order :: re where
  "PATTERNS_end_order = Str ''MTX_POS_EndOrder''"

definition PATTERNS_reset_clear_end :: re where
  "PATTERNS_reset_clear_end = Str ''Reset_Clear END''"

definition PATTERNS_aid :: re where
  "PATTERNS_aid = seqs [Str ''AppID >'', Grp 1 (Plus word), Str ''<'']"

definition PATTERNS_app_label :: re where
  "PATTERNS_app_label = seqs [Str ''AppLabel >'', Grp 1 (Plus (NSet [C (CHR ''<'')])), Str ''<'']"

definition PATTERNS_cvm_result :: re where
  "PATTERNS_cvm_result = seqs [Str ''CVMR >'', Grp 1 (Plus word), Str ''<'']"

definition PATTERNS_tvr :: re where
  "PATTERNS_tvr = seqs [Str ''tvr='', Grp 1 (Plus word), Str '','']"

definition PATTERNS_cmd_sequence :: re where
  "PATTERNS_cmd_sequence = seqs
     [Str ''****COMMAND SEQUENCE for '', Plus Dot, Str '' >'',
      Grp 1 (Plus (NSet [C (CHR ''<'')])), Str ''<'']"

definition PATTERNS_quickchip :: re where
  "PATTERNS_quickchip = seqs [Str ''IsQuickChip='', Grp 1 (Cl word)]"

definition PATTERNS_scat_state :: re where
  "PATTERNS_scat_state = seqs [Str ''>>>>>>SCATState = '', Grp 1 (Plus word)]"

definition PATTERNS_send_ack_fail :: re where
  "PATTERNS_send_ack_fail = Str ''****ERROR: SendMsgWaitAck3Tries failed''"

text \<open>
  The entries of \<^verbatim>\<open>SE_SEND_FIELD_PATTERNS\<close> and \<^verbatim>\<open>SE_RECV_FIELD_PATTERNS\<close> that have
  a branch in the loops of \<^verbatim>\<open>_extract_se_send_fields\<close> and
  \<^verbatim>\<open>_extract_se_recv_fields\<close> (the others are searched for and dropped).
\<close>

definition SE_SEND_amount :: re where
  "SE_SEND_amount = seqs [Str ''Da'', Grp 1 (Plus digit)]"

definition SE_SEND_cashback :: re where
  "SE_SEND_cashback = seqs [Str ''Dc'', Grp 1 (Plus digit)]"

definition SE_SEND_card_type_code :: re where
  "SE_SEND_card_type_code = seqs [Str ''Bn'', Grp 1 (Seq (Cl word) (Cl word))]"

definition SE_SEND_pan_last4 :: re where
  "SE_SEND_pan_last4 = seqs [Str ''Bp'', Grp 1 (Plus digit)]"

definition SE_SEND_entry_method :: re where
  "SE_SEND_entry_method = seqs [Str ''Bf'', Opt (Str ''E''), Opt (Str ''C''), Grp 1 (Cl word)]"

definition SE_SEND_aid_field :: re where
  "SE_SEND_aid_field = seqs [Str ''84-'', Grp 1 (Plus word)]"

definition SE_SEND_app_label_field :: re where
  "SE_SEND_app_label_field = seqs [Str ''50-'', Grp 1 (Plus (NSet [C (CHR ''|'')]))]"

definition SE_SEND_tvr_field :: re where
  "SE_SEND_tvr_field = seqs [Str ''95-'', Grp 1 (Plus word)]"

definition SE_SEND_cvm_field :: re where
  "SE_SEND_cvm_field = seqs [Str ''9F34-'', Grp 1 (Plus word)]"

definition SE_SEND_tac_seq :: re where
  "SE_SEND_tac_seq = seqs [Str ''Gh'', Grp 1 (Plus (NSet [C (CHR ''['')]))]"

definition SE_RECV_response_code_host :: re where
  "SE_RECV_response_code_host = seqs [Str ''Af'', Grp 1 (Seq (Cl word) (Cl word))]"

definition SE_RECV_auth_number :: re where
  "SE_RECV_auth_number = seqs [Str ''Ag'', Grp 1 (Plus word)]"

definition SE_RECV_host_response :: re where
  "SE_RECV_host_response = seqs [Str ''Mb'', Grp 1 (seqs [Cl digit, Cl digit, Cl digit])]"

text \<open>\<^verbatim>\<open>CARD_TYPE_MAP.get(val, val)\<close>.\<close>

definition CARD_TYPE_MAP :: "string \<Rightarrow> string" where
  "CARD_TYPE_MAP val =
     (if val = ''DB'' then ''Debit''
      else if val = ''VS'' \<or> val = ''MC'' \<or> val = ''AX'' \<or> val = ''DS'' then ''Credit''
      else if val = ''EF'' then ''EBT Food''
      else if val = ''EC'' then ''EBT Cash''
      else val)"

text \<open>\<^verbatim>\<open>sub in s\<close> on strings.\<close>

fun str_contains :: "string \<Rightarrow> string \<Rightarrow> bool" where
  "str_contains sub [] = (sub = [])"
| "str_contains sub (c # s) = (take (length sub) (c # s) = sub \<or> str_contains sub s)"

subsection \<open>The per-entry extractors\<close>

text \<open>
  The statements of \<^verbatim>\<open>_extract_fields\<close>, one definition for each, in the order of the
  source. None of them looks at the value that the field holds.
\<close>

definition extract_card_entry :: "log_entry \<Rightarrow> transaction_data \<Rightarrow> transaction_data" where
  "extract_card_entry entry txn =
     (case re_search PATTERNS_card_entry (message entry) of
        Some m \<Rightarrow>
          if category entry = ''DLL-EX'' \<or> category entry = ''TCP/IP''
          then txn\<lparr>entry_method := grp m 1\<rparr> else txn
      | None \<Rightarrow> txn)"

definition extract_aid :: "log_entry \<Rightarrow> transaction_data \<Rightarrow> transaction_data" where
  "extract_aid entry txn =
     (case re_search PATTERNS_aid (message entry) of
        Some m \<Rightarrow> txn\<lparr>aid := grp m 1\<rparr>
      | None \<Rightarrow> txn)"

definition extract_app_label :: "log_entry \<Rightarrow> transaction_data \<Rightarrow> transaction_data" where
  "extract_app_label entry txn =
     (case re_search PATTERNS_app_label (message entry) of
        Some m \<Rightarrow> txn\<lparr>app_label := strip (grp m 1)\<rparr>
      | None \<Rightarrow> txn)"

definition extract_cvm_result :: "log_entry \<Rightarrow> transaction_data \<Rightarrow> transaction_data" where
  "extract_cvm_result entry txn =
     (case re_search PATTERNS_cvm_result (message entry) of
        Some m \<Rightarrow> if grp m 1 \<noteq> ''3F0000'' then txn\<lparr>cvm_result := grp m 1\<rparr> else txn
      | None \<Rightarrow> txn)"

definition extract_tvr :: "log_entry \<Rightarrow> transaction_data \<Rightarrow> transaction_data" where
  "extract_tvr entry txn =
     (case re_search PATTERNS_tvr (message entry) of
        Some m \<Rightarrow> txn\<lparr>tvr := grp m 1\<rparr>
      | None \<Rightarrow> txn)"

definition extract_cmd_sequence :: "log_entry \<Rightarrow> transaction_data \<Rightarrow> transaction_data" where
  "extract_cmd_sequence entry txn =
     (case re_search PATTERNS_cmd_sequence (message entry) of
        Some m \<Rightarrow> txn\<lparr>tac_sequence := strip (grp m 1)\<rparr>
      | None \<Rightarrow> txn)"

definition extract_quickchip :: "log_entry \<Rightarrow> transaction_data \<Rightarrow> transaction_data" where
  "extract_quickchip entry txn =
     (case re_search PATTERNS_quickchip (message entry) of
        Some m \<Rightarrow> txn\<lparr>is_quickchip := (grp m 1 = ''Y'')\<rparr>
      | None \<Rightarrow> txn)"

definition extract_auth_number :: "log_entry \<Rightarrow> transaction_data \<Rightarrow> transaction_data" where
  "extract_auth_number entry txn =
     (case re_search PATTERNS_auth_number (message entry) of
        Some m \<Rightarrow>
          if category entry = ''TCP/IP'' then txn\<lparr>authorization_number := grp m 1\<rparr> else txn
      | None \<Rightarrow> txn)"

definition extract_tender_type :: "log_entry \<Rightarrow> transaction_data \<Rightarrow> transaction_data" where
  "extract_tender_type entry txn =
     (case re_search PATTERNS_tender_type (message entry) of
        Some m \<Rightarrow>
          (let tender_name = strip (grp m 1) in
           if str_contains ''Debit'' tender_name then txn\<lparr>card_type := ''Debit''\<rparr>
           else if str_contains ''Credit'' tender_name then txn\<lparr>card_type := ''Credit''\<rparr>
           else if str_contains ''EBT Food'' tender_name \<or> str_contains ''Food Stamp'' tender_name
           then txn\<lparr>card_type := ''EBT Food''\<rparr>
           else if str_contains ''EBT Cash'' tender_name then txn\<lparr>card_type := ''EBT Cash''\<rparr>
           else txn)
      | None \<Rightarrow> txn)"

text \<open>\<^verbatim>\<open>_extract_fields\<close> on the transaction in progress.\<close>

definition extract_fields :: "transaction_data \<Rightarrow> log_entry \<Rightarrow> transaction_data" where
  "extract_fields txn entry =
     extract_tender_type entry
       (extract_auth_number entry
         (extract_quickchip entry
           (extract_cmd_sequence entry
             (extract_tvr entry
               (extract_cvm_result entry
                 (extract_app_label entry
                   (extract_aid entry
                     (extract_card_entry entry txn))))))))"

subsection \<open>The fields of the host exchange\<close>

text \<open>
  One definition for each branch of the loop of \<^verbatim>\<open>_extract_se_send_fields\<close>, in the
  order of \<^verbatim>\<open>SE_SEND_FIELD_PATTERNS\<close>. \<^verbatim>\<open>not txn.x\<close> holds of an empty string and
  of the amount 0.
\<close>

definition se_send_amount :: "string \<Rightarrow> transaction_data \<Rightarrow> transaction_data" where
  "se_send_amount msg txn =
     (case re_search SE_SEND_amount msg of
        Some m \<Rightarrow> if amount_cents txn = 0 then txn\<lparr>amount_cents := py_int (grp m 1)\<rparr> else txn
      | None \<Rightarrow> txn)"

definition se_send_cashback :: "string \<Rightarrow> transaction_data \<Rightarrow> transaction_data" where
  "se_send_cashback msg txn =
     (case re_search SE_SEND_cashback msg of
        Some m \<Rightarrow> txn\<lparr>cashback_cents := py_int (grp m 1)\<rparr>
      | None \<Rightarrow> txn)"

definition se_send_card_type_code :: "string \<Rightarrow> transaction_data \<Rightarrow> transaction_data" where
  "se_send_card_type_code msg txn =
     (case re_search SE_SEND_card_type_code msg of
        Some m \<Rightarrow> if card_type txn = '''' then txn\<lparr>card_type := CARD_TYPE_MAP (grp m 1)\<rparr> else txn
      | None \<Rightarrow> txn)"

definition se_send_pan_last4 :: "string \<Rightarrow> transaction_data \<Rightarrow> transaction_data" where
  "se_send_pan_last4 msg txn =
     (case re_search SE_SEND_pan_last4 msg of
        Some m \<Rightarrow> txn\<lparr>pan_last4 := grp m 1\<rparr>
      | None \<Rightarrow> txn)"

definition se_send_entry_method :: "string \<Rightarrow> transaction_data \<Rightarrow> transaction_data" where
  "se_send_entry_method msg txn =
     (case re_search SE_SEND_entry_method msg of
        Some m \<Rightarrow> if entry_method txn = '''' then txn\<lparr>entry_method := grp m 1\<rparr> else txn
      | None \<Rightarrow> txn)"

definition se_send_aid_field :: "string \<Rightarrow> transaction_data \<Rightarrow> transaction_data" where
  "se_send_aid_field msg txn =
     (case re_search SE_SEND_aid_field msg of
        Some m \<Rightarrow> if aid txn = '''' then txn\<lparr>aid := grp m 1\<rparr> else txn
      | None \<Rightarrow> txn)"

definition se_send_app_label_field :: "string \<Rightarrow> transaction_data \<Rightarrow> transaction_data" where
  "se_send_app_label_field msg txn =
     (case re_search SE_SEND_app_label_field msg of
        Some m \<Rightarrow> if app_label txn = '''' then txn\<lparr>app_label := strip (grp m 1)\<rparr> else txn
      | None \<Rightarrow> txn)"

definition se_send_tvr_field :: "string \<Rightarrow> transaction_data \<Rightarrow> transaction_data" where
  "se_send_tvr_field msg txn =
     (case re_search SE_SEND_tvr_field msg of
        Some m \<Rightarrow> if tvr txn = '''' then txn\<lparr>tvr := grp m 1\<rparr> else txn
      | None \<Rightarrow> txn)"

definition se_send_cvm_field :: "string \<Rightarrow> transaction_data \<Rightarrow> transaction_data" where
  "se_send_cvm_field msg txn =
     (case re_search SE_SEND_cvm_field msg of
        Some m \<Rightarrow> if grp m 1 \<noteq> ''3F0000'' then txn\<lparr>cvm_result := grp m 1\<rparr> else txn
      | None \<Rightarrow> txn)"

definition se_send_tac_seq :: "string \<Rightarrow> transaction_data \<Rightarrow> transaction_data" where
  "se_send_tac_seq msg txn =
     (case re_search SE_SEND_tac_seq msg of
        Some m \<Rightarrow> if tac_sequence txn = '''' then txn\<lparr>tac_sequence := strip (grp m 1)\<rparr> else txn
      | None \<Rightarrow> txn)"

definition extract_se_send_fields :: "transaction_data \<Rightarrow> string \<Rightarrow> transaction_data" where
  "extract_se_send_fields txn msg =
     se_send_tac_seq msg
       (se_send_cvm_field msg
         (se_send_tvr_field msg
           (se_send_app_label_field msg
             (se_send_aid_field msg
               (se_send_entry_method msg
                 (se_send_pan_last4 msg
                   (se_send_card_type_code msg
                     (se_send_cashback msg
                       (se_send_amount msg txn)))))))))"

text \<open>The branches of the loop of \<^verbatim>\<open>_extract_se_recv_fields\<close>.\<close>

definition se_recv_response_code_host :: "string \<Rightarrow> transaction_data \<Rightarrow> transaction_data" where
  "se_recv_response_code_host msg txn =
     (case re_search SE_RECV_response_code_host msg of
        Some m \<Rightarrow>
          (let val = grp m 1 in
           if val = ''00'' then txn\<lparr>response_code := ''AA''\<rparr>
           else if val = ''05'' \<or> val = ''14'' \<or> val = ''51'' then txn\<lparr>response_code := ''DD''\<rparr>
           else txn)
      | None \<Rightarrow> txn)"

definition se_recv_auth_number :: "string \<Rightarrow> transaction_data \<Rightarrow> transaction_data" where
  "se_recv_auth_number msg txn =
     (case re_search SE_RECV_auth_number msg of
        Some m \<Rightarrow> txn\<lparr>authorization_number := strip (grp m 1)\<rparr>
      | None \<Rightarrow> txn)"

definition se_recv_host_response :: "string \<Rightarrow> transaction_data \<Rightarrow> transaction_data" where
  "se_recv_host_response msg txn =
     (case re_search SE_RECV_host_response msg of
        Some m \<Rightarrow> txn\<lparr>host_response_code := grp m 1\<rparr>
      | None \<Rightarrow> txn)"

definition extract_se_recv_fields :: "transaction_data \<Rightarrow> string \<Rightarrow> transaction_data" where
  "extract_se_recv_fields txn msg =
     se_recv_host_response msg (se_recv_auth_number msg (se_recv_response_code_host msg txn))"

subsection \<open>The segmenter\<close>

text \<open>The state of a \<^verbatim>\<open>TransactionSegmenter\<close>.\<close>

record segmenter =
  seg_state :: transaction_state
  seg_current :: "transaction_data option"
  entries_buffer :: "log_entry list"

definition segmenter_init :: segmenter where
  "segmenter_init = \<lparr>seg_state = IDLE, seg_current = None, entries_buffer = []\<rparr>"

definition start_new :: "log_entry \<Rightarrow> segmenter" where
  "start_new entry =
     \<lparr>seg_state = IN_PROGRESS,
      seg_current = Some (TransactionData\<lparr>start_line := line_number entry,
                                           start_time := Some (timestamp entry)\<rparr>),
      entries_buffer = [entry]\<rparr>"

definition finalize_current :: "transaction_data \<Rightarrow> log_entry option \<Rightarrow> transaction_data" where
  "finalize_current txn entry =
     (case entry of
        Some e \<Rightarrow> txn\<lparr>end_line := line_number e, end_time := Some (timestamp e)\<rparr>
      | None \<Rightarrow> txn)"

text \<open>The steps of \<^verbatim>\<open>_process_entry\<close> on the markers of the host exchange.\<close>

definition on_se_send ::
  "log_entry \<Rightarrow> transaction_state \<times> transaction_data \<Rightarrow> transaction_state \<times> transaction_data"
  where
  "on_se_send entry st =
     (case re_search PATTERNS_se_send (message entry) of
        Some m \<Rightarrow>
          if category entry = ''SVREPS''
          then (ONLINE_PENDING,
                extract_se_send_fields
                  ((snd st)\<lparr>se_send_time := Some (timestamp entry), host_url := grp m 2,
                           sequence_number := grp m 3\<rparr>)
                  (message entry))
          else st
      | None \<Rightarrow> st)"

text \<open>\<^verbatim>\<open>float(m.group(1))\<close> raises \<^verbatim>\<open>ValueError\<close> on a capture such as \<^verbatim>\<open>1.2.3\<close>.\<close>

definition on_se_recv ::
  "log_entry \<Rightarrow> transaction_state \<times> transaction_data
     \<Rightarrow> error + transaction_state \<times> transaction_data" where
  "on_se_recv entry st =
     (case re_search PATTERNS_se_recv (message entry) of
        Some m \<Rightarrow>
          if category entry = ''SVREPS''
          then (case py_float (grp m 1) of
                  Inl e \<Rightarrow> Inl e
                | Inr latency \<Rightarrow>
                    Inr (COMPLETING,
                         extract_se_recv_fields
                           ((snd st)\<lparr>se_recv_time := Some (timestamp entry),
                                    host_latency_ms := latency * 1000\<rparr>)
                           (message entry)))
          else Inr st
      | None \<Rightarrow> Inr st)"

definition on_response_code :: "log_entry \<Rightarrow> transaction_data \<Rightarrow> transaction_data" where
  "on_response_code entry txn =
     (case re_search PATTERNS_response_code (message entry) of
        Some m \<Rightarrow>
          if category entry = ''TCP/IP'' \<and> response_code txn = ''''
          then txn\<lparr>response_code := grp m 1\<rparr> else txn
      | None \<Rightarrow> txn)"

definition on_host_response :: "log_entry \<Rightarrow> transaction_data \<Rightarrow> transaction_data" where
  "on_host_response entry txn =
     (case re_search PATTERNS_host_response (message entry) of
        Some m \<Rightarrow>
          if category entry = ''TCP/IP'' then txn\<lparr>host_response_code := grp m 1\<rparr> else txn
      | None \<Rightarrow> txn)"

definition on_send_ack_fail :: "log_entry \<Rightarrow> transaction_data \<Rightarrow> transaction_data" where
  "on_send_ack_fail entry txn =
     (if re_search PATTERNS_send_ack_fail (message entry) \<noteq> None
      then txn\<lparr>serial_error_count := serial_error_count txn + 1\<rparr> else txn)"

definition on_scat_state :: "log_entry \<Rightarrow> transaction_data \<Rightarrow> transaction_data" where
  "on_scat_state entry txn =
     (case re_search PATTERNS_scat_state (message entry) of
        Some m \<Rightarrow> txn\<lparr>state_sequence := state_sequence txn @ [strip (grp m 1)]\<rparr>
      | None \<Rightarrow> txn)"

text \<open>
  \<^verbatim>\<open>_process_entry\<close> from "Track entries" on, with the transaction in progress \<open>txn\<close>:
  the segmenter after the entry and the transaction that the entry completes, if any.
\<close>

definition track_entry ::
  "segmenter \<Rightarrow> transaction_data \<Rightarrow> log_entry \<Rightarrow> error + segmenter \<times> transaction_data option"
  where
  "track_entry seg txn entry =
     (let buffer = entries_buffer seg @ [entry];
          txn1 = extract_fields (txn\<lparr>entry_count := entry_count txn + 1\<rparr>) entry
      in case on_se_recv entry (on_se_send entry (seg_state seg, txn1)) of
           Inl e \<Rightarrow> Inl e
         | Inr (st, txn2) \<Rightarrow>
             (let txn3 = on_host_response entry (on_response_code entry txn2) in
              if re_search PATTERNS_end_order (message entry) \<noteq> None
              then Inr (\<lparr>seg_state = IDLE, seg_current = None, entries_buffer = []\<rparr>,
                        Some (finalize_current txn3 (Some entry)))
              else if re_search PATTERNS_reset_clear_end (message entry) \<noteq> None
                      \<and> response_code txn3 \<noteq> ''''
              then Inr (\<lparr>seg_state = IDLE, seg_current = None, entries_buffer = []\<rparr>,
                        Some (finalize_current txn3 (Some entry)))
              else Inr (\<lparr>seg_state = st,
                         seg_current = Some (on_scat_state entry (on_send_ack_fail entry txn3)),
                         entries_buffer = buffer\<rparr>,
                        None)))"

text \<open>\<^verbatim>\<open>TransactionSegmenter._process_entry\<close>.\<close>

definition txn_process_entry ::
  "segmenter \<Rightarrow> log_entry \<Rightarrow> error + segmenter \<times> transaction_data option" where
  "txn_process_entry seg entry =
     (if re_search PATTERNS_begin_order (message entry) \<noteq> None
      then Inr (start_new entry,
                (case seg_current seg of
                   Some c \<Rightarrow>
                     if start_time c \<noteq> None then Some (finalize_current c (Some entry)) else None
                 | None \<Rightarrow> None))
      else
        (let seg1 =
               (if seg_state seg = IDLE
                   \<and> re_search PATTERNS_tender_type_set (message entry) \<noteq> None
                   \<and> category entry = ''DLL-EX''
                then start_new entry else seg)
         in case seg_current seg1 of
              None \<Rightarrow> Inr (seg1, None)
            | Some txn \<Rightarrow> track_entry seg1 txn entry))"

text \<open>
  \<^verbatim>\<open>TransactionSegmenter.process_entries\<close>: the loop, then the flush of the transaction
  that is still open. An exception ends the iteration: the result is then the error.
\<close>

definition flush_current :: "segmenter \<Rightarrow> transaction_data list" where
  "flush_current seg =
     (case seg_current seg of
        Some c \<Rightarrow>
          if start_time c \<noteq> None
          then [finalize_current c
                  (if entries_buffer seg \<noteq> [] then Some (last (entries_buffer seg)) else None)]
          else []
      | None \<Rightarrow> [])"

fun txn_loop :: "log_entry list \<Rightarrow> segmenter \<Rightarrow> error + transaction_data list" where
  "txn_loop [] seg = Inr (flush_current seg)"
| "txn_loop (entry # entries) seg =
     (case txn_process_entry seg entry of
        Inl e \<Rightarrow> Inl e
      | Inr (seg', result) \<Rightarrow>
          (case txn_loop entries seg' of
             Inl e \<Rightarrow> Inl e
           | Inr out \<Rightarrow> Inr ((case result of Some t \<Rightarrow> [t] | None \<Rightarrow> []) @ out)))"

definition txn_process_entries :: "log_entry list \<Rightarrow> error + transaction_data list" where
  "txn_process_entries entries = txn_loop entries segmenter_init"

section \<open>From the lines of a file to its transactions\<close>

text \<open>
  \<^verbatim>\<open>FileReader.parse_lines\<close> on the lines of a file (without their line ends), numbered
  from \<open>n\<close>: a line that yields nothing is skipped.
\<close>

fun parse_lines :: "string \<Rightarrow> string list \<Rightarrow> int \<Rightarrow> error + item list" where
  "parse_lines src [] n = Inr []"
| "parse_lines src (raw # raws) n =
     (case parse_line src raw n of
        Inl e \<Rightarrow> Inl e
      | Inr r \<Rightarrow>
          (case parse_lines src raws (n + 1) of
             Inl e \<Rightarrow> Inl e
           | Inr items \<Rightarrow>
               Inr ((case r of Entry e \<Rightarrow> [ItemEntry e] | Directive d \<Rightarrow> [ItemDirective d]
                     | Nothing \<Rightarrow> []) @ items)))"

text \<open>\<^verbatim>\<open>FileReader.read_entries\<close>, with the default look-back of the expander.\<close>

definition read_entries :: "string \<Rightarrow> string list \<Rightarrow> error + log_entry list" where
  "read_entries src raws =
     (case parse_lines src raws 1 of
        Inl e \<Rightarrow> Inl e
      | Inr items \<Rightarrow> Inr (process 20 items))"

text \<open>The transactions of a file, as the ingestion command computes them.\<close>

definition transactions_of_lines :: "string \<Rightarrow> string list \<Rightarrow> error + transaction_data list" where
  "transactions_of_lines src raws =
     (case read_entries src raws of
        Inl e \<Rightarrow> Inl e
      | Inr entries \<Rightarrow> txn_process_entries entries)"

section \<open>Storage of the alive timeline\<close>

text \<open>
  \<^verbatim>\<open>SCATTimelineRepo.insert_batch\<close> puts the transitions in a dict keyed by timestamp
  (a later status replaces an earlier one with the same timestamp, at the place of the
  first), and the table has the timestamp as its key. The rule engine reads the table
  back with \<^verbatim>\<open>ORDER BY timestamp\<close>.
\<close>

fun dict_put :: "('k \<times> 'v) list \<Rightarrow> 'k \<Rightarrow> 'v \<Rightarrow> ('k \<times> 'v) list" where
  "dict_put [] k v = [(k, v)]"
| "dict_put ((k', v') # d) k v = (if k' = k then (k, v) # d else (k', v') # dict_put d k v)"

definition insert_batch :: "(datetime \<times> int) list \<Rightarrow> (datetime \<times> int) list" where
  "insert_batch entries = foldl (\<lambda>d (ts, status). dict_put d ts status) [] entries"

definition scat_timeline_rows :: "scat_state_machine \<Rightarrow> (datetime \<times> int) list" where
  "scat_timeline_rows sm =
     sort_key (\<lambda>(ts, status). to_us ts)
       (insert_batch (map (\<lambda>(ts, status, name). (ts, status)) (alive_history sm)))"

section \<open>The rule engine\<close>

record issue_type =
  it_id :: int
  it_name :: string
  it_severity :: string
  it_severity_rank :: int
  it_description :: string
  it_resolution_steps :: "string list"

definition SCAT_DEAD :: issue_type where
  "SCAT_DEAD =
     \<lparr>it_id = 2, it_name = ''scat_dead'', it_severity = ''critical'', it_severity_rank = 1,
      it_description = ''Pinpad is dead/unresponsive for extended period'',
      it_resolution_steps =
        [''1. Power cycle the pinpad'',
         ''2. Have cashier re-sign-on (CheckerSignOn)'',
         ''3. Check COM9 cable connection'',
         ''4. Verify M400 firmware version'',
         ''5. If P2P mismatch: check encryption configuration'']\<rparr>"

definition CARD_READ_INTERMITTENT :: issue_type where
  "CARD_READ_INTERMITTENT =
     \<lparr>it_id = 13, it_name = ''card_read_intermittent'', it_severity = ''high'',
      it_severity_rank = 2,
      it_description =
        ''Intermittent card read failures - customers waiting at pinpad with no card read'',
      it_resolution_steps =
        [''1. Clean the chip card reader slot and contactless reader surface'',
         ''2. Inspect mag stripe reader for debris or damage'',
         ''3. Check for worn/damaged card reader contacts'',
         ''4. Power cycle pinpad (unplug for 60 seconds)'',
         ''5. If 7-8 AM spike: check USB power management settings (disable selective suspend)'',
         ''6. If chronic (>15% daily rate): schedule pinpad replacement'',
         ''7. Check if NFC/contactless antenna is loose'']\<rparr>"

text \<open>
  The time range and the evidence of an issue are formatted strings in the source. The
  model keeps the values that are formatted, not the text: a time range is
  \<^verbatim>\<open>"{a} - {b}"\<close> or \<^verbatim>\<open>"{a} - (end of file)"\<close>, the evidence is a list of parts
  (joined with \<^verbatim>\<open>"; "\<close> in the source).
\<close>

datatype time_range = Between datetime datetime | UntilEndOfFile datetime

datatype evidence_part =
    DeadMinutes real
  | StillDeadMinutes real
  | FailedToRead nat nat real
  | QuickCancels nat
  | BurstOf nat
  | AvgCustomerWait real
  | TimeoutCluster real
  | TotalWastedMinutes real
  | MorningSpike real real

record issue =
  issue_type_name :: string
  severity :: string
  severity_rank :: int
  confidence :: real
  description :: string
  time_range :: time_range
  evidence :: "evidence_part list"
  resolution_steps :: "string list"

definition make_issue :: "issue_type \<Rightarrow> real \<Rightarrow> time_range \<Rightarrow> evidence_part list \<Rightarrow> issue" where
  "make_issue it conf tr ev =
     \<lparr>issue_type_name = it_name it, severity = it_severity it,
      severity_rank = it_severity_rank it, confidence = conf, description = it_description it,
      time_range = tr, evidence = ev, resolution_steps = it_resolution_steps it\<rparr>"

text \<open>\<^verbatim>\<open>RuleEngine._outside_window\<close>; a \<^verbatim>\<open>datetime\<close> is always truthy.\<close>

definition outside_window ::
  "datetime \<Rightarrow> datetime \<Rightarrow> datetime option \<Rightarrow> datetime option \<Rightarrow> bool" where
  "outside_window event_start event_end window_start window_end =
     (case (window_start, window_end) of
        (None, None) \<Rightarrow> False
      | _ \<Rightarrow>
         (case window_start of
            Some ws \<Rightarrow> to_us event_end < to_us ws
          | None \<Rightarrow> False)
         \<or> (case window_end of
               Some we \<Rightarrow> to_us we < to_us event_start
             | None \<Rightarrow> False))"

subsection \<open>Detector 1: dead periods\<close>

definition dead_run_issue :: "datetime \<Rightarrow> datetime \<Rightarrow> issue" where
  "dead_run_issue dead_start ts =
     (let duration_sec = total_seconds ts dead_start in
      make_issue SCAT_DEAD (min 0.95 (0.5 + duration_sec / 3600)) (Between dead_start ts)
        [DeadMinutes (duration_sec / 60)])"

text \<open>The loop of \<^verbatim>\<open>_check_scat_dead\<close> over the rows of the timeline.\<close>

fun scat_dead_loop ::
  "(datetime \<times> int) list \<Rightarrow> datetime option \<Rightarrow> issue list \<Rightarrow> datetime option
     \<Rightarrow> datetime option \<Rightarrow> datetime option \<times> issue list" where
  "scat_dead_loop [] dead_start issues ws we = (dead_start, issues)"
| "scat_dead_loop ((ts, status) # rest) dead_start issues ws we =
     (case dead_start of
        None \<Rightarrow>
          (if status = 0 then scat_dead_loop rest (Some ts) issues ws we
           else scat_dead_loop rest None issues ws we)
      | Some ds \<Rightarrow>
          (if status \<noteq> 0
           then scat_dead_loop rest None
                  (if 60 < total_seconds ts ds \<and> \<not> outside_window ds ts ws we
                   then issues @ [dead_run_issue ds ts] else issues) ws we
           else scat_dead_loop rest (Some ds) issues ws we))"

text \<open>The branch "still dead at end of file" of \<^verbatim>\<open>_check_scat_dead\<close>.\<close>

definition still_dead_issues ::
  "(datetime \<times> int) list \<Rightarrow> datetime option \<Rightarrow> datetime option \<Rightarrow> datetime option
     \<Rightarrow> issue list" where
  "still_dead_issues rows dead_start ws we =
     (case dead_start of
        None \<Rightarrow> []
      | Some ds \<Rightarrow>
          (let last_ts = fst (last rows); duration_sec = total_seconds last_ts ds in
           if 60 < duration_sec \<and> \<not> outside_window ds last_ts ws we
           then [make_issue SCAT_DEAD 0.9 (UntilEndOfFile ds) [StillDeadMinutes (duration_sec / 60)]]
           else []))"

definition check_scat_dead ::
  "(datetime \<times> int) list \<Rightarrow> datetime option \<Rightarrow> datetime option \<Rightarrow> issue list" where
  "check_scat_dead rows ws we =
     (if rows = [] then []
      else (case scat_dead_loop rows None [] ws we of
              (dead_start, issues) \<Rightarrow> issues @ still_dead_issues rows dead_start ws we))"

subsection \<open>Detector 13: intermittent card read failures\<close>

text \<open>
  A row of the query of \<^verbatim>\<open>_check_card_read_intermittent\<close>: start time, end time,
  duration, approved flag, card type, host latency, amount and entry method
  (\<^verbatim>\<open>r[0]\<close> to \<^verbatim>\<open>r[7]\<close>); a column that is \<^verbatim>\<open>NULL\<close> is \<open>None\<close>. The rows are those of
  the analysis window, ordered by start time.
\<close>

record txn_row =
  row_start_time :: datetime
  row_end_time :: datetime
  row_duration_ms :: "real option"
  row_is_approved :: "bool option"
  row_card_type :: "string option"
  row_host_latency_ms :: "real option"
  row_amount_cents :: "int option"
  row_entry_method :: "string option"

definition MIN_WAIT_MS :: real where
  "MIN_WAIT_MS = 15000"

definition is_noread :: "txn_row \<Rightarrow> bool" where
  "is_noread r =
     ((case row_is_approved r of Some b \<Rightarrow> \<not> b | None \<Rightarrow> True) \<and>
      (case row_card_type r of Some s \<Rightarrow> s = '''' | None \<Rightarrow> True) \<and>
      (case row_host_latency_ms r of Some l \<Rightarrow> l = 0 | None \<Rightarrow> True))"

definition is_quick :: "txn_row \<Rightarrow> bool" where
  "is_quick r = (case row_duration_ms r of Some d \<Rightarrow> d < MIN_WAIT_MS | None \<Rightarrow> False)"

text \<open>The first loop: the no-reads that are kept, and the count of quick cancels.\<close>

fun noread_scan :: "txn_row list \<Rightarrow> txn_row list \<Rightarrow> nat \<Rightarrow> txn_row list \<times> nat" where
  "noread_scan [] no_reads quick_cancels = (no_reads, quick_cancels)"
| "noread_scan (r # rows) no_reads quick_cancels =
     (if is_noread r
      then (if is_quick r then noread_scan rows no_reads (quick_cancels + 1)
            else noread_scan rows (no_reads @ [r]) quick_cancels)
      else noread_scan rows no_reads quick_cancels)"

definition is_real_noread :: "txn_row \<Rightarrow> bool" where
  "is_real_noread r =
     ((case row_is_approved r of Some b \<Rightarrow> \<not> b | None \<Rightarrow> True) \<and>
      (case row_card_type r of Some s \<Rightarrow> s = '''' | None \<Rightarrow> True) \<and>
      (case row_host_latency_ms r of Some l \<Rightarrow> l = 0 | None \<Rightarrow> True) \<and>
      (case row_duration_ms r of Some d \<Rightarrow> MIN_WAIT_MS \<le> d | None \<Rightarrow> True))"

text \<open>
  The second loop, over \<^verbatim>\<open>max_burst\<close> and \<^verbatim>\<open>burst_count\<close> (\<^verbatim>\<open>burst_start\<close> is
  assigned in the source but never read), and the comparison that follows it.
\<close>

fun burst_loop :: "txn_row list \<Rightarrow> nat \<Rightarrow> nat \<Rightarrow> nat \<times> nat" where
  "burst_loop [] max_burst burst_count = (max_burst, burst_count)"
| "burst_loop (r # rows) max_burst burst_count =
     (if is_real_noread r then burst_loop rows max_burst (burst_count + 1)
      else burst_loop rows (if max_burst < burst_count then burst_count else max_burst) 0)"

definition max_burst_of :: "txn_row list \<Rightarrow> nat" where
  "max_burst_of rows =
     (case burst_loop rows 0 0 of
        (max_burst, burst_count) \<Rightarrow> if max_burst < burst_count then burst_count else max_burst)"

definition wait_times_of :: "txn_row list \<Rightarrow> real list" where
  "wait_times_of no_reads =
     List.map_filter
       (\<lambda>r. case row_duration_ms r of Some d \<Rightarrow> if 0 < d then Some d else None | None \<Rightarrow> None)
       no_reads"

definition avg_wait_s :: "txn_row list \<Rightarrow> real" where
  "avg_wait_s no_reads =
     (let wait_times = wait_times_of no_reads in
      if wait_times \<noteq> [] then sum_list wait_times / real (length wait_times) / 1000 else 0)"

definition total_wait_s :: "txn_row list \<Rightarrow> real" where
  "total_wait_s no_reads =
     (let wait_times = wait_times_of no_reads in
      if wait_times \<noteq> [] then sum_list wait_times / 1000 else 0)"

definition timeout_pct :: "txn_row list \<Rightarrow> real" where
  "timeout_pct no_reads =
     (let timeout_zone =
            length (filter (\<lambda>r. case row_duration_ms r of
                                   Some d \<Rightarrow> d \<noteq> 0 \<and> 30000 \<le> d \<and> d \<le> 55000
                                 | None \<Rightarrow> False) no_reads)
      in if length no_reads \<noteq> 0 then real timeout_zone * 100 / real (length no_reads) else 0)"

text \<open>The evidence of the acute branch.\<close>

definition acute_evidence :: "txn_row list \<Rightarrow> nat \<Rightarrow> nat \<Rightarrow> nat \<Rightarrow> evidence_part list" where
  "acute_evidence no_reads total_count quick_cancels max_burst =
     [FailedToRead (length no_reads) total_count (real (length no_reads) * 100 / real total_count)]
     @ (if 0 < quick_cancels then [QuickCancels quick_cancels] else [])
     @ (if 3 \<le> max_burst then [BurstOf max_burst] else [])
     @ [AvgCustomerWait (avg_wait_s no_reads)]
     @ (if 20 < timeout_pct no_reads then [TimeoutCluster (timeout_pct no_reads)] else [])
     @ [TotalWastedMinutes (total_wait_s no_reads / 60)]"

text \<open>
  The evidence of the chronic branch; \<open>hourly\<close> is the result of
  \<^verbatim>\<open>_get_hourly_noread_rate\<close>, a list of (hour, no-read count, total count).
\<close>

definition chronic_evidence ::
  "txn_row list \<Rightarrow> nat \<Rightarrow> nat \<Rightarrow> (int \<times> int \<times> int) list \<Rightarrow> evidence_part list" where
  "chronic_evidence no_reads total_count quick_cancels hourly =
     (let no_read_pct = real (length no_reads) * 100 / real total_count;
          morning = filter (\<lambda>(h, noread, tot). h = 7 \<or> h = 8) hourly;
          morning_rate = sum_list (map (\<lambda>(h, noread, tot). noread) morning);
          morning_total = sum_list (map (\<lambda>(h, noread, tot). tot) morning)
      in [FailedToRead (length no_reads) total_count no_read_pct]
         @ (if 0 < quick_cancels then [QuickCancels quick_cancels] else [])
         @ [AvgCustomerWait (avg_wait_s no_reads)]
         @ (if 20 < timeout_pct no_reads then [TimeoutCluster (timeout_pct no_reads)] else [])
         @ [TotalWastedMinutes (total_wait_s no_reads / 60)]
         @ (if 0 < morning_total
            then (let morning_pct = real_of_int morning_rate * 100 / real_of_int morning_total in
                  if no_read_pct + 5 < morning_pct
                  then [MorningSpike morning_pct no_read_pct] else [])
            else []))"

definition check_card_read_intermittent ::
  "txn_row list \<Rightarrow> (int \<times> int \<times> int) list \<Rightarrow> issue list" where
  "check_card_read_intermittent rows hourly =
     (if length rows < 5 then []
      else
        (let total_count = length rows in
         case noread_scan rows [] 0 of
           (no_reads, quick_cancels) \<Rightarrow>
             (let no_read_count = length no_reads in
              if no_read_count = 0 then []
              else
                (let no_read_pct = real no_read_count * 100 / real total_count;
                     max_burst = max_burst_of rows;
                     tr = Between (row_start_time (hd no_reads)) (row_start_time (last no_reads))
                 in if 3 \<le> max_burst \<or> 30 \<le> no_read_pct
                    then [make_issue CARD_READ_INTERMITTENT
                            (min 0.95 (0.7 + real max_burst * 0.05)) tr
                            (acute_evidence no_reads total_count quick_cancels max_burst)]
                    else if 15 \<le> no_read_pct \<and> 10 \<le> total_count
                    then [make_issue CARD_READ_INTERMITTENT
                            (min 0.85 (0.5 + no_read_pct / 100)) tr
                            (chronic_evidence no_reads total_count quick_cancels hourly)]
                    else []))))"

section \<open>Example inputs\<close>

text \<open>
  \<^verbatim>\<open>LogEntry(line_number, timestamp, category, message)\<close> with the defaults of the
  dataclass, and a time of day on 2025-11-30 (the day of the repository's sample log).
\<close>

definition make_entry :: "int \<Rightarrow> datetime \<Rightarrow> string \<Rightarrow> string \<Rightarrow> log_entry" where
  "make_entry n ts cat msg =
     \<lparr>line_number = n, timestamp = ts, category = cat, message = msg, is_expanded = False,
      expansion_count = 1, source_file = ''''\<rparr>"

definition at_time :: "nat \<Rightarrow> nat \<Rightarrow> nat \<Rightarrow> nat \<Rightarrow> datetime" where
  "at_time h m s us =
     \<lparr>year = 2025, month = 11, day = 30, hour = h, minute = m, second = s, microsecond = us\<rparr>"

text \<open>Five entries that carry the alive statuses 3, 3, 0, 0, 3.\<close>

definition liveness_example :: "log_entry list" where
  "liveness_example =
     [make_entry 1 (at_time 0 0 1 0) ''DLL-EX'' ''SCATAliveInt = 3 (ReportScatAlive)'',
      make_entry 2 (at_time 0 0 2 0) ''DLL-EX'' ''SCATAliveInt = 3 (ReportScatAlive)'',
      make_entry 3 (at_time 0 0 3 0) ''DLL-EX'' ''SCATAliveInt = 0 (ReportScatDead)'',
      make_entry 4 (at_time 0 0 4 0) ''DLL-EX'' ''SCATAliveInt = 0 (ReportScatDead)'',
      make_entry 5 (at_time 0 0 5 0) ''DLL-EX'' ''SCATAliveInt = 3 (ReportScatAlive)'']"

text \<open>
  Three entries whose timestamps go back in time: dead at 00:01:40, alive at 00:00:50,
  dead again at 00:03:20.
\<close>

definition backwards_clock_example :: "log_entry list" where
  "backwards_clock_example =
     [make_entry 1 (at_time 0 1 40 0) ''DLL-EX'' ''SCATAliveInt = 0 (ReportScatDead)'',
      make_entry 2 (at_time 0 0 50 0) ''DLL-EX'' ''SCATAliveInt = 3 (ReportScatAlive)'',
      make_entry 3 (at_time 0 3 20 0) ''DLL-EX'' ''SCATAliveInt = 0 (ReportScatDead)'']"

text \<open>
  A window of 20 transactions: three approved, a quick cancel, three approved, three long
  no-reads in a row, five approved, a quick cancel, four approved.
\<close>

definition approved_row :: "datetime \<Rightarrow> txn_row" where
  "approved_row t =
     \<lparr>row_start_time = t, row_end_time = t, row_duration_ms = Some 40000,
      row_is_approved = Some True, row_card_type = Some ''Debit'',
      row_host_latency_ms = Some 1743, row_amount_cents = Some 5000,
      row_entry_method = Some ''E''\<rparr>"

definition noread_row :: "datetime \<Rightarrow> real \<Rightarrow> txn_row" where
  "noread_row t d =
     \<lparr>row_start_time = t, row_end_time = t, row_duration_ms = Some d,
      row_is_approved = Some False, row_card_type = Some '''',
      row_host_latency_ms = Some 0, row_amount_cents = Some 0,
      row_entry_method = Some ''''\<rparr>"

definition burst_example_pre :: "txn_row list" where
  "burst_example_pre =
     [approved_row (at_time 9 0 0 0), approved_row (at_time 9 1 0 0),
      approved_row (at_time 9 2 0 0), noread_row (at_time 9 3 0 0) 4000,
      approved_row (at_time 9 4 0 0), approved_row (at_time 9 5 0 0),
      approved_row (at_time 9 6 0 0)]"

definition burst_example_post :: "txn_row list" where
  "burst_example_post =
     [approved_row (at_time 9 10 0 0), approved_row (at_time 9 11 0 0),
      approved_row (at_time 9 12 0 0), approved_row (at_time 9 13 0 0),
      approved_row (at_time 9 14 0 0), noread_row (at_time 9 15 0 0) 14999,
      approved_row (at_time 9 16 0 0), approved_row (at_time 9 17 0 0),
      approved_row (at_time 9 18 0 0), approved_row (at_time 9 19 0 0)]"

text \<open>Two ExchangeInfo start markers, and no result marker.\<close>

definition unresolved_example :: "log_entry list" where
  "unresolved_example =
     [make_entry 1 (at_time 8 0 0 0) ''SVREPS''
        ''ServerEPS_LSExchangeInfo Company[145714] Store[1] Addr[trn2.servereps.com]'',
      make_entry 2 (at_time 8 5 0 0) ''SVREPS''
        ''ServerEPS_LSExchangeInfo Company[145714] Store[1] Addr[trn3.servereps.com]'']"

text \<open>The four lines of a debit purchase.\<close>

definition purchase_lines :: "string list" where
  "purchase_lines =
     [''11/30/25 08:06:19.279 DLL-EX MTX_POS_BeginOrder'',
      ''11/30/25 08:07:31.399 SVREPS SE_SEND(TimeOutSecs 30) [60 bytes] URL[https://trn2.servereps.com/sCAT2] Aa145714 Ab1 Ae9218 BnDB Da5000 Bp1234 BfE'',
      ''11/30/25 08:07:33.149 SVREPS SE_RECV(1.743 secs) [250 bytes] Ae9218 Af00 Ag123456'',
      ''11/30/25 08:08:40.447 DLL-EX MTX_POS_EndOrder'']"

text \<open>A transaction in which the terminal reports two application identifiers.\<close>

definition two_aid_example :: "log_entry list" where
  "two_aid_example =
     [make_entry 1 (at_time 8 6 19 279000) ''DLL-EX'' ''MTX_POS_BeginOrder'',
      make_entry 2 (at_time 8 6 25 0) ''TCP/IP'' ''AppID >A0000000041010<'',
      make_entry 3 (at_time 8 6 26 0) ''TCP/IP'' ''AppID >A0000000031010<'',
      make_entry 4 (at_time 8 8 40 447000) ''DLL-EX'' ''MTX_POS_EndOrder'']"

section \<open>Verified properties\<close>

lemmas class_defs = digit_def word_def space_def nonspace_def is_digit_def is_word_def is_space_def

lemmas text_defs = re_match_def group_def grp_def rstrip_def strip_def py_int_def digit_val_def

lemmas date_defs = two_def days_in_month_def is_leap_def

subsection \<open>The line parser\<close>

text \<open>
  C2. The claim is that \<^verbatim>\<open>parse_line\<close> never raises and that a line of the right
  shape whose timestamp is no date (month 99) yields nothing. The source calls
  \<^verbatim>\<open>strptime\<close> unguarded: on such a line the \<^verbatim>\<open>ValueError\<close> leaves the function,
  whatever the source file name and the line number are.
\<close>

theorem parse_line_month_99_raises:
  "parse_line src ''99/30/25 08:06:19.279 DLL-EX MTX_POS_BeginOrder'' n = Inl ValueError"
  by (simp add: parse_line_def REPEAT_PATTERN_def LINE_PATTERN_def class_defs text_defs date_defs)

subsection \<open>The repeat expander\<close>

lemma slice_from_neg_ge_length:
  "int (length xs) \<le> n \<Longrightarrow> slice_from (- n) xs = xs"
  by (cases "xs = []") (auto simp: slice_from_def)

lemma slice_from_neg_in_range:
  "1 \<le> n \<Longrightarrow> n \<le> int (length xs) \<Longrightarrow> slice_from (- n) xs = drop (length xs - nat n) xs"
  by (simp add: slice_from_def nat_diff_distrib' max_def)

lemma length_concat_replicate:
  "length (concat (replicate m xs)) = m * length xs"
  by (induction m) auto

text \<open>
  A directive with \<open>1 \<le> N \<le> length buf\<close> and \<open>M \<ge> 0\<close> replays the last \<open>N\<close> buffered
  entries \<open>M\<close> times, as marked copies, and leaves the buffer as it is.
\<close>

lemma expander_step_in_range:
  assumes "1 \<le> line_count d" and "line_count d \<le> int (length buf)" and "0 \<le> repeat_count d"
  shows "expander_step maxlen buf (ItemDirective d) =
           (buf, concat (replicate (nat (repeat_count d))
                   (map (expanded_copy (repeat_count d))
                        (drop (length buf - nat (line_count d)) buf))))"
    and "int (length (snd (expander_step maxlen buf (ItemDirective d)))) =
           line_count d * repeat_count d"
proof -
  let ?src = "drop (length buf - nat (line_count d)) buf"
  have s: "slice_from (- line_count d) buf = ?src"
    using assms by (simp add: slice_from_neg_in_range)
  have n: "length ?src = nat (line_count d)"
    using assms by simp
  then have ne: "?src \<noteq> []"
    using assms by auto
  show "expander_step maxlen buf (ItemDirective d) =
           (buf, concat (replicate (nat (repeat_count d))
                   (map (expanded_copy (repeat_count d)) ?src)))"
    using ne by (simp add: expand_directive_def s)
  then show "int (length (snd (expander_step maxlen buf (ItemDirective d)))) =
           line_count d * repeat_count d"
    using assms n by (simp add: length_concat_replicate mult.commute)
qed

text \<open>
  C5, as stated: a directive asking for more entries than the buffer holds yields
  nothing. It fails with one buffered entry and a directive for two lines.
\<close>

theorem directive_beyond_buffer_counterexample:
  "\<not> (\<forall>buf d. int (length buf) < line_count d \<longrightarrow> expand_directive buf d = [])"
proof
  let ?e = "\<lparr>line_number = 1,
             timestamp = \<lparr>year = 2025, month = 1, day = 1, hour = 0, minute = 0, second = 0,
                          microsecond = 0\<rparr>,
             category = ''SERIAL'', message = ''msg1'', is_expanded = False,
             expansion_count = 1, source_file = ''''\<rparr>"
  let ?d = "\<lparr>line_count = 2, repeat_count = 1, rd_line_number = 2\<rparr>"
  assume "\<forall>buf d. int (length buf) < line_count d \<longrightarrow> expand_directive buf d = []"
  then have "int (length [?e]) < line_count ?d \<longrightarrow> expand_directive [?e] ?d = []"
    by blast
  then show False
    by (simp add: expand_directive_def slice_from_def)
qed

text \<open>
  C5, amended: only a directive met with an empty buffer is dropped. A directive asking
  for more entries than the (non-empty) buffer holds replays the whole buffer, in
  order, \<open>repeat_count\<close> times; the buffer is unchanged in both cases.
\<close>

theorem directive_beyond_buffer_replays_all:
  "expander_step maxlen [] (ItemDirective d) = ([], []) \<and>
   (int (length buf) < line_count d \<longrightarrow>
      expander_step maxlen buf (ItemDirective d) =
        (buf, concat (replicate (nat (repeat_count d)) (map (expanded_copy (repeat_count d)) buf))))"
proof (intro conjI impI)
  show "expander_step maxlen [] (ItemDirective d) = ([], [])"
    by (simp add: expand_directive_def slice_from_def)
next
  assume "int (length buf) < line_count d"
  then have "slice_from (- line_count d) buf = buf"
    by (simp add: slice_from_neg_ge_length)
  then show "expander_step maxlen buf (ItemDirective d) =
        (buf, concat (replicate (nat (repeat_count d)) (map (expanded_copy (repeat_count d)) buf)))"
    by (cases "buf = []") (simp_all add: expand_directive_def)
qed

theorem directive_beyond_buffer_replays_all_witness:
  "expander_step 20
     [\<lparr>line_number = 1,
       timestamp = \<lparr>year = 2025, month = 1, day = 1, hour = 0, minute = 0, second = 0,
                    microsecond = 0\<rparr>,
       category = ''SERIAL'', message = ''msg1'', is_expanded = False, expansion_count = 1,
       source_file = ''''\<rparr>]
     (ItemDirective \<lparr>line_count = 2, repeat_count = 2, rd_line_number = 2\<rparr>)
   = ([\<lparr>line_number = 1,
        timestamp = \<lparr>year = 2025, month = 1, day = 1, hour = 0, minute = 0, second = 0,
                     microsecond = 0\<rparr>,
        category = ''SERIAL'', message = ''msg1'', is_expanded = False, expansion_count = 1,
        source_file = ''''\<rparr>],
      [\<lparr>line_number = 1,
        timestamp = \<lparr>year = 2025, month = 1, day = 1, hour = 0, minute = 0, second = 0,
                     microsecond = 0\<rparr>,
        category = ''SERIAL'', message = ''msg1'', is_expanded = True, expansion_count = 2,
        source_file = ''''\<rparr>,
       \<lparr>line_number = 1,
        timestamp = \<lparr>year = 2025, month = 1, day = 1, hour = 0, minute = 0, second = 0,
                     microsecond = 0\<rparr>,
        category = ''SERIAL'', message = ''msg1'', is_expanded = True, expansion_count = 2,
        source_file = ''''\<rparr>])"
  using directive_beyond_buffer_replays_all
    [of 20 "\<lparr>line_count = 2, repeat_count = 2, rd_line_number = 2\<rparr>"
        "[\<lparr>line_number = 1,
           timestamp = \<lparr>year = 2025, month = 1, day = 1, hour = 0, minute = 0, second = 0,
                        microsecond = 0\<rparr>,
           category = ''SERIAL'', message = ''msg1'', is_expanded = False, expansion_count = 1,
           source_file = ''''\<rparr>]"]
  by (simp add: expanded_copy_def numeral_2_eq_2)

text \<open>
  C9. The claim is that a directive with \<open>line_count = N\<close> over a buffer of at least
  \<open>N\<close> entries yields \<open>N \<times> M\<close> entries. The parser accepts the line
  \<^verbatim>\<open>(Above 0 Lines Repeated 2 Times)\<close> with \<open>N = 0\<close>, and the slice
  \<^verbatim>\<open>buf_list[-0:]\<close> is the whole buffer: after one entry the directive yields two
  copies of it, not \<open>0 \<times> 2 = 0\<close> entries.
\<close>

theorem directive_zero_lines_replays_buffer:
  "parse_line src ''   (Above 0 Lines Repeated 2 Times)'' n =
     Inr (Directive \<lparr>line_count = 0, repeat_count = 2, rd_line_number = n\<rparr>) \<and>
   process 20 [ItemEntry e, ItemDirective \<lparr>line_count = 0, repeat_count = 2, rd_line_number = n\<rparr>] =
     [e, expanded_copy 2 e, expanded_copy 2 e]"
proof
  show "parse_line src ''   (Above 0 Lines Repeated 2 Times)'' n =
     Inr (Directive \<lparr>line_count = 0, repeat_count = 2, rd_line_number = n\<rparr>)"
    by (simp add: parse_line_def REPEAT_PATTERN_def class_defs text_defs)
  show "process 20 [ItemEntry e, ItemDirective \<lparr>line_count = 0, repeat_count = 2, rd_line_number = n\<rparr>] =
     [e, expanded_copy 2 e, expanded_copy 2 e]"
    by (simp add: process_def deque_append_def expand_directive_def slice_from_def numeral_2_eq_2)
qed

subsection \<open>The alive-status history of the state machine\<close>

lemma track_state_alive [simp]:
  "alive_status (track_state sm e) = alive_status sm"
  "alive_history (track_state sm e) = alive_history sm"
  by (simp_all add: track_state_def Let_def split: option.splits)

lemma alive_history_process_entry:
  "alive_history (process_entry sm e) =
     (case alive_marker (message e) of
        Some (status, name) \<Rightarrow>
          if status \<noteq> alive_status sm
          then alive_history sm @ [(timestamp e, status, name)] else alive_history sm
      | None \<Rightarrow> alive_history sm)"
  by (simp add: process_entry_def track_alive_def split: option.splits prod.splits)

lemma alive_status_process_entry:
  "alive_status (process_entry sm e) =
     (case alive_marker (message e) of Some (status, name) \<Rightarrow> status | None \<Rightarrow> alive_status sm)"
  by (simp add: process_entry_def track_alive_def split: option.splits prod.splits)

lemma alive_marker_examples:
  "alive_marker ''SCATAliveInt = 3 (ReportScatAlive)'' = Some (3, ''ReportScatAlive'')"
  "alive_marker ''SCATAliveInt = 0 (ReportScatDead)'' = Some (0, ''ReportScatDead'')"
  by (simp_all add: alive_marker_def ALIVE_PATTERN_def class_defs text_defs)

text \<open>
  C3, as the specification states it, fails: a fresh state machine starts with the alive
  status 9 (\<^verbatim>\<open>self.alive_status: int = 9\<close>), so the very first status 3 differs from
  it and is recorded. On five entries carrying 3, 3, 0, 0, 3 the history has three transitions,
  not two.
\<close>

theorem liveness_3_3_0_0_3_counterexample:
  "alive_history (scat_run liveness_example) =
     [(at_time 0 0 1 0, 3, ''ReportScatAlive''), (at_time 0 0 3 0, 0, ''ReportScatDead''),
      (at_time 0 0 5 0, 3, ''ReportScatAlive'')] \<and>
   length (alive_history (scat_run liveness_example)) \<noteq> 2"
  by (simp add: liveness_example_def make_entry_def scat_run_def alive_history_process_entry
      alive_status_process_entry scat_init_def alive_marker_examples)

text \<open>
  C3, amended: for a freshly constructed state machine, five entries whose messages carry the
  alive statuses 3, 3, 0, 0, 3 record exactly three transitions: the first 3 (it differs from
  the initial status 9), the first 0, and the first 3 after the zeros, each with the timestamp
  of its entry and the name of its marker.
\<close>

theorem liveness_3_3_0_0_3:
  assumes "alive_marker (message e1) = Some (3, n1)"
      and "alive_marker (message e2) = Some (3, n2)"
      and "alive_marker (message e3) = Some (0, n3)"
      and "alive_marker (message e4) = Some (0, n4)"
      and "alive_marker (message e5) = Some (3, n5)"
  shows "alive_history (scat_run [e1, e2, e3, e4, e5]) =
           [(timestamp e1, 3, n1), (timestamp e3, 0, n3), (timestamp e5, 3, n5)]"
  using assms
  by (simp add: scat_run_def alive_history_process_entry alive_status_process_entry scat_init_def)

text \<open>The amended C3 at the five example entries.\<close>

theorem liveness_3_3_0_0_3_witness:
  "alive_history (scat_run liveness_example) =
     [(at_time 0 0 1 0, 3, ''ReportScatAlive''), (at_time 0 0 3 0, 0, ''ReportScatDead''),
      (at_time 0 0 5 0, 3, ''ReportScatAlive'')]"
  using liveness_3_3_0_0_3
    [of "liveness_example ! 0" "''ReportScatAlive''" "liveness_example ! 1" "''ReportScatAlive''"
        "liveness_example ! 2" "''ReportScatDead''" "liveness_example ! 3" "''ReportScatDead''"
        "liveness_example ! 4" "''ReportScatAlive''"]
  by (simp add: liveness_example_def make_entry_def alive_marker_examples)

subsection \<open>Time arithmetic on the example day\<close>

lemma to_us_at_time:
  "to_us (at_time h m s us) =
     int ((((739585 * 24 + h) * 60 + m) * 60 + s) * 1000000) + int us"
proof -
  have "[1..<11] = [1, 2, 3, 4, 5, 6, 7, 8, 9, 10::nat]"
    by (simp add: upt_rec)
  then have "days_before_year 2025 + days_before_month 2025 11 + 30 = 739585"
    by (simp add: days_before_year_def days_before_month_def days_in_month_def is_leap_def)
  then show ?thesis
    by (simp add: to_us_def at_time_def)
qed

lemma total_seconds_self [simp]: "total_seconds t t = 0"
  by (simp add: total_seconds_def)

subsection \<open>The dead-run detector\<close>

lemma scat_dead_loop_append:
  "scat_dead_loop (xs @ ys) ds acc ws we =
     (case scat_dead_loop xs ds acc ws we of (ds', acc') \<Rightarrow> scat_dead_loop ys ds' acc' ws we)"
  by (induction xs ds acc ws we rule: scat_dead_loop.induct) (simp_all split: option.splits)

lemma scat_dead_loop_acc_gen:
  "scat_dead_loop xs ds (a @ b) ws we =
     (fst (scat_dead_loop xs ds b ws we), a @ snd (scat_dead_loop xs ds b ws we))"
proof (induction xs arbitrary: ds a b)
  case Nil
  then show ?case by simp
next
  case (Cons x xs)
  obtain ts status where x: "x = (ts, status)" by (cases x)
  show ?case
  proof (cases ds)
    case None
    then show ?thesis using Cons[of None a b] Cons[of "Some ts" a b] x by simp
  next
    case (Some d)
    show ?thesis
    proof (cases "status = 0")
      case True
      then show ?thesis using Cons[of "Some d" a b] x Some by simp
    next
      case False
      have step: "scat_dead_loop (x # xs) ds acc ws we =
                  scat_dead_loop xs None
                    (if 60 < total_seconds ts d \<and> \<not> outside_window d ts ws we
                     then acc @ [dead_run_issue d ts] else acc) ws we" for acc
        using x Some False by simp
      show ?thesis
      proof (cases "60 < total_seconds ts d \<and> \<not> outside_window d ts ws we")
        case True
        show ?thesis
          unfolding step if_P[OF True]
          using Cons[of None a "b @ [dead_run_issue d ts]"] by simp
      next
        case no: False
        show ?thesis
          unfolding step if_not_P[OF no] using Cons[of None a b] by simp
      qed
    qed
  qed
qed

lemma scat_dead_loop_acc:
  "scat_dead_loop xs ds acc ws we =
     (fst (scat_dead_loop xs ds [] ws we), acc @ snd (scat_dead_loop xs ds [] ws we))"
  using scat_dead_loop_acc_gen[of xs ds acc "[]" ws we] by simp

lemma still_dead_issues_append:
  "ys \<noteq> [] \<Longrightarrow> still_dead_issues (xs @ ys) ds ws we = still_dead_issues ys ds ws we"
  by (cases ds) (simp_all add: still_dead_issues_def)

lemma still_dead_issues_None [simp]: "still_dead_issues rows None ws we = []"
  by (simp add: still_dead_issues_def)

lemma check_scat_dead_closed_run:
  assumes "status \<noteq> 0"
      and "fst (scat_dead_loop pre None [] ws we) = None"
  shows "check_scat_dead (pre @ [(t0, 0), (t1, status)] @ post) ws we =
           check_scat_dead pre ws we
           @ (if 60 < total_seconds t1 t0 \<and> \<not> outside_window t0 t1 ws we
              then [dead_run_issue t0 t1] else [])
           @ check_scat_dead post ws we"
proof -
  let ?new = "if 60 < total_seconds t1 t0 \<and> \<not> outside_window t0 t1 ws we
              then [dead_run_issue t0 t1] else []"
  obtain ip where pre: "scat_dead_loop pre None [] ws we = (None, ip)"
    using assms(2) by (cases "scat_dead_loop pre None [] ws we") simp
  obtain dp iq where post: "scat_dead_loop post None [] ws we = (dp, iq)"
    by (cases "scat_dead_loop post None [] ws we")
  have cpre: "check_scat_dead pre ws we = ip"
    using pre by (cases pre) (simp_all add: check_scat_dead_def)
  have run: "scat_dead_loop [(t0, 0), (t1, status)] None ip ws we = (None, ip @ ?new)"
    using assms(1) by simp
  have "scat_dead_loop post None (ip @ ?new) ws we = (dp, (ip @ ?new) @ iq)"
    using scat_dead_loop_acc[of post None "ip @ ?new" ws we] post by simp
  then have tail: "scat_dead_loop post None (ip @ ?new) ws we = (dp, ip @ ?new @ iq)"
    by simp
  have "scat_dead_loop (pre @ [(t0, 0), (t1, status)] @ post) None [] ws we =
        scat_dead_loop ([(t0, 0), (t1, status)] @ post) None ip ws we"
    by (simp only: scat_dead_loop_append[of pre] pre prod.case)
  also have "\<dots> = scat_dead_loop post None (ip @ ?new) ws we"
    by (simp only: scat_dead_loop_append[of "[(t0, 0), (t1, status)]"] run prod.case)
  finally have loop: "scat_dead_loop (pre @ [(t0, 0), (t1, status)] @ post) None [] ws we =
               (dp, ip @ ?new @ iq)"
    using tail by simp
  show ?thesis
  proof (cases "post = []")
    case True
    then have "dp = None" "iq = []" using post by simp_all
    then show ?thesis
      using loop True cpre by (simp add: check_scat_dead_def del: scat_dead_loop.simps)
  next
    case False
    have "still_dead_issues (pre @ [(t0, 0), (t1, status)] @ post) dp ws we =
          still_dead_issues post dp ws we"
      using still_dead_issues_append[OF False, of "pre @ [(t0, 0), (t1, status)]"] by simp
    then show ?thesis
      using loop False cpre post
      by (simp add: check_scat_dead_def del: scat_dead_loop.simps)
  qed
qed

text \<open>
  C7: the duration threshold of the dead-run detector is strictly greater than 60 seconds.
  In any timeline, take a closed dead run inside the analysis window: a status-0 row at
  \<open>t0\<close> that opens the run (the rows before it leave no run open), followed by a non-zero
  row at \<open>t1\<close>. A run of at most 60 seconds, so one of exactly 60.0 seconds, adds no issue.
  A run of more than 60 seconds adds exactly one issue, of type \<^verbatim>\<open>scat_dead\<close>, whose
  confidence is \<open>min 0.95 (0.5 + duration / 3600)\<close>; for a run of 60.001 seconds the
  confidence is \<open>min 0.95 (0.5 + 60.001 / 3600)\<close>. The issues of the rows before and after
  the run are unchanged.
\<close>

theorem dead_run_threshold_is_strict:
  assumes "status \<noteq> 0"
      and "fst (scat_dead_loop pre None [] ws we) = None"
      and "\<not> outside_window t0 t1 ws we"
  shows "(total_seconds t1 t0 \<le> 60 \<longrightarrow>
            check_scat_dead (pre @ [(t0, 0), (t1, status)] @ post) ws we =
              check_scat_dead pre ws we @ check_scat_dead post ws we) \<and>
         (60 < total_seconds t1 t0 \<longrightarrow>
            check_scat_dead (pre @ [(t0, 0), (t1, status)] @ post) ws we =
              check_scat_dead pre ws we
              @ [\<lparr>issue_type_name = ''scat_dead'', severity = ''critical'', severity_rank = 1,
                  confidence = min 0.95 (0.5 + total_seconds t1 t0 / 3600),
                  description = ''Pinpad is dead/unresponsive for extended period'',
                  time_range = Between t0 t1,
                  evidence = [DeadMinutes (total_seconds t1 t0 / 60)],
                  resolution_steps = it_resolution_steps SCAT_DEAD\<rparr>]
              @ check_scat_dead post ws we) \<and>
         (total_seconds t1 t0 = 60.001 \<longrightarrow>
            map confidence (check_scat_dead (pre @ [(t0, 0), (t1, status)] @ post) ws we) =
              map confidence (check_scat_dead pre ws we)
              @ [min 0.95 (0.5 + 60.001 / 3600)]
              @ map confidence (check_scat_dead post ws we))"
proof (intro conjI impI)
  assume "total_seconds t1 t0 \<le> 60"
  then show "check_scat_dead (pre @ [(t0, 0), (t1, status)] @ post) ws we =
               check_scat_dead pre ws we @ check_scat_dead post ws we"
    unfolding check_scat_dead_closed_run[OF assms(1,2)] by simp
next
  assume "60 < total_seconds t1 t0"
  then show "check_scat_dead (pre @ [(t0, 0), (t1, status)] @ post) ws we =
              check_scat_dead pre ws we
              @ [\<lparr>issue_type_name = ''scat_dead'', severity = ''critical'', severity_rank = 1,
                  confidence = min 0.95 (0.5 + total_seconds t1 t0 / 3600),
                  description = ''Pinpad is dead/unresponsive for extended period'',
                  time_range = Between t0 t1,
                  evidence = [DeadMinutes (total_seconds t1 t0 / 60)],
                  resolution_steps = it_resolution_steps SCAT_DEAD\<rparr>]
              @ check_scat_dead post ws we"
    unfolding check_scat_dead_closed_run[OF assms(1,2)] dead_run_issue_def Let_def
    using assms(3) by (simp add: make_issue_def SCAT_DEAD_def)
next
  assume d: "total_seconds t1 t0 = 60.001"
  show "map confidence (check_scat_dead (pre @ [(t0, 0), (t1, status)] @ post) ws we) =
              map confidence (check_scat_dead pre ws we)
              @ [min 0.95 (0.5 + 60.001 / 3600)]
              @ map confidence (check_scat_dead post ws we)"
    unfolding check_scat_dead_closed_run[OF assms(1,2)] dead_run_issue_def Let_def d
    using assms(3) by (simp add: make_issue_def)
qed

text \<open>
  C7 at a run of 60 seconds and at a run of 60.001 seconds after one alive row: no issue,
  and one issue of confidence \<open>1860001 / 3600000 = min 0.95 (0.5 + 60.001 / 3600)\<close>.
\<close>

theorem dead_run_threshold_is_strict_witness:
  "check_scat_dead
     [(at_time 8 0 0 0, 3), (at_time 8 1 0 0, 0), (at_time 8 2 0 0, 3)] None None = [] \<and>
   check_scat_dead
     [(at_time 8 0 0 0, 3), (at_time 8 1 0 0, 0), (at_time 8 2 0 1000, 3)] None None =
     [\<lparr>issue_type_name = ''scat_dead'', severity = ''critical'', severity_rank = 1,
       confidence = 1860001 / 3600000,
       description = ''Pinpad is dead/unresponsive for extended period'',
       time_range = Between (at_time 8 1 0 0) (at_time 8 2 0 1000),
       evidence = [DeadMinutes (60001 / 60000)],
       resolution_steps = it_resolution_steps SCAT_DEAD\<rparr>] \<and>
   map confidence
     (check_scat_dead
        [(at_time 8 0 0 0, 3), (at_time 8 1 0 0, 0), (at_time 8 2 0 1000, 3)] None None) =
     [min 0.95 (0.5 + 60.001 / 3600)]"
  using dead_run_threshold_is_strict
          [of 3 "[(at_time 8 0 0 0, 3)]" None None "at_time 8 1 0 0" "at_time 8 2 0 0" "[]"]
        dead_run_threshold_is_strict
          [of 3 "[(at_time 8 0 0 0, 3)]" None None "at_time 8 1 0 0" "at_time 8 2 0 1000" "[]"]
  by (simp add: outside_window_def total_seconds_def to_us_at_time check_scat_dead_def)

subsection \<open>A dead run that never ends\<close>

lemma dead_periods_loop_append:
  "dead_periods_loop (xs @ ys) ds ps =
     (case dead_periods_loop xs ds ps of (ds', ps') \<Rightarrow> dead_periods_loop ys ds' ps')"
  by (induction xs ds ps rule: dead_periods_loop.induct) (simp_all split: option.splits)

lemma dead_periods_loop_snoc_nonzero:
  "status \<noteq> 0 \<Longrightarrow> fst (dead_periods_loop (xs @ [(ts, status, name)]) ds ps) = None"
  by (cases "dead_periods_loop xs ds ps")
     (simp add: dead_periods_loop_append split: option.splits)

lemma scat_dead_loop_snoc_nonzero:
  "status \<noteq> 0 \<Longrightarrow> fst (scat_dead_loop (xs @ [(ts, status)]) ds acc ws we) = None"
  by (cases "scat_dead_loop xs ds acc ws we")
     (simp add: scat_dead_loop_append split: option.splits)

text \<open>Two statuses in a row in the history of the state machine differ.\<close>

lemma scat_run_snoc: "scat_run (es @ [e]) = process_entry (scat_run es) e"
  by (simp add: scat_run_def)

lemma scat_run_history_invariant:
  "distinct_adj (statuses (alive_history (scat_run es))) \<and>
   (alive_history (scat_run es) \<noteq> [] \<longrightarrow>
      last (statuses (alive_history (scat_run es))) = alive_status (scat_run es))"
proof (induction es rule: rev_induct)
  case Nil
  then show ?case by (simp add: scat_run_def scat_init_def statuses_def)
next
  case (snoc e es)
  show ?case
  proof (cases "alive_marker (message e)")
    case None
    then show ?thesis
      using snoc by (simp add: scat_run_snoc alive_history_process_entry alive_status_process_entry)
  next
    case (Some p)
    obtain status name where p: "p = (status, name)" by (cases p)
    show ?thesis
    proof (cases "status = alive_status (scat_run es)")
      case True
      then show ?thesis
        using snoc Some p
        by (simp add: scat_run_snoc alive_history_process_entry alive_status_process_entry)
    next
      case False
      then show ?thesis
        using snoc Some p
        by (cases "alive_history (scat_run es) = []")
           (simp_all add: scat_run_snoc alive_history_process_entry alive_status_process_entry
              statuses_def distinct_adj_append_iff last_map)
    qed
  qed
qed

lemma history_before_final_dead:
  assumes "alive_history (scat_run es) = h @ [(t, 0, name)]"
  shows "h = [] \<or> (\<exists>h' ts status nm. h = h' @ [(ts, status, nm)] \<and> status \<noteq> 0)"
proof (cases h rule: rev_cases)
  case Nil
  then show ?thesis by simp
next
  case (snoc h' x)
  obtain ts status nm where x: "x = (ts, status, nm)" by (cases x)
  have "distinct_adj (statuses (h' @ [(ts, status, nm), (t, 0, name)]))"
    using scat_run_history_invariant[of es] assms snoc x by simp
  then have "status \<noteq> 0"
    by (simp add: statuses_def distinct_adj_append_iff)
  then show ?thesis using snoc x by simp
qed

subsection \<open>The stored timeline\<close>

lemma dict_put_fresh: "k \<notin> fst ` set d \<Longrightarrow> dict_put d k v = d @ [(k, v)]"
  by (induction d) auto

lemma insert_loop_distinct:
  "distinct (map fst (acc @ xs)) \<Longrightarrow>
   foldl (\<lambda>d (ts, status). dict_put d ts status) acc xs = acc @ xs"
proof (induction xs arbitrary: acc)
  case Nil
  then show ?case by simp
next
  case (Cons x xs)
  obtain k v where x: "x = (k, v)" by (cases x)
  have "dict_put acc k v = acc @ [(k, v)]"
    using Cons.prems x by (intro dict_put_fresh) auto
  moreover have "distinct (map fst ((acc @ [(k, v)]) @ xs))"
    using Cons.prems x by simp
  ultimately show ?case
    using Cons.IH[of "acc @ [(k, v)]"] x by simp
qed

lemma insert_batch_distinct: "distinct (map fst xs) \<Longrightarrow> insert_batch xs = xs"
  using insert_loop_distinct[of "[]" xs] by (simp add: insert_batch_def)

lemma strictly_increasing_distinct:
  "sorted_wrt (\<lambda>a b. to_us a < to_us b) ts \<Longrightarrow> distinct ts"
  by (induction ts) auto

lemma strictly_increasing_sorted:
  "sorted_wrt (\<lambda>a b. to_us a < to_us b) ts \<Longrightarrow> sorted (map to_us ts)"
  by (induction ts) (auto simp: less_imp_le)

lemma scat_timeline_rows_increasing:
  assumes "sorted_wrt (\<lambda>a b. to_us a < to_us b) (map fst (alive_history sm))"
  shows "scat_timeline_rows sm = map (\<lambda>(ts, status, name). (ts, status)) (alive_history sm)"
proof -
  let ?rows = "map (\<lambda>(ts, status, name). (ts, status)) (alive_history sm)"
  have fst: "map fst ?rows = map fst (alive_history sm)"
    by (simp add: case_prod_beta)
  have "distinct (map fst ?rows)"
    by (simp only: fst strictly_increasing_distinct[OF assms])
  then have "insert_batch ?rows = ?rows"
    by (rule insert_batch_distinct)
  moreover have key: "map (\<lambda>(ts, status). to_us ts) ?rows = map to_us (map fst (alive_history sm))"
    by (simp add: case_prod_beta)
  have "sorted (map (\<lambda>(ts, status). to_us ts) ?rows)"
    by (simp only: key strictly_increasing_sorted[OF assms])
  then have "sort_key (\<lambda>(ts, status). to_us ts) ?rows = ?rows"
    by (rule sort_key_id_if_sorted)
  ultimately show ?thesis by (simp add: scat_timeline_rows_def)
qed

text \<open>
  C10, amended: whenever the history recorded by the state machine ends with a transition
  to status 0, the list of dead periods ends with a period that starts and ends at that
  transition and lasts 0 seconds. If in addition the timestamps of the history strictly
  increase, the stored timeline is the history itself, and the branch "still dead at end of
  file" of the dead-run detector produces no issue, whatever the analysis window.
\<close>

theorem final_dead_period_is_empty:
  assumes "alive_history (scat_run es) = h @ [(t, 0, name)]"
  shows "get_dead_periods (scat_run es) \<noteq> [] \<and>
         last (get_dead_periods (scat_run es)) = (t, t, 0) \<and>
         (sorted_wrt (\<lambda>a b. to_us a < to_us b) (map fst (alive_history (scat_run es))) \<longrightarrow>
            (\<forall>ws we.
               (let rows = scat_timeline_rows (scat_run es) in
                  still_dead_issues rows (fst (scat_dead_loop rows None [] ws we)) ws we = [])))"
proof -
  have before: "h = [] \<or> (\<exists>h' ts status nm. h = h' @ [(ts, status, nm)] \<and> status \<noteq> 0)"
    using history_before_final_dead[OF assms(1)] .
  have "fst (dead_periods_loop h None []) = None"
    using before dead_periods_loop_snoc_nonzero by auto
  then obtain ps where ps: "dead_periods_loop h None [] = (None, ps)"
    by (cases "dead_periods_loop h None []") simp
  have "dead_periods_loop (h @ [(t, 0, name)]) None [] = (Some t, ps)"
    by (simp add: dead_periods_loop_append ps)
  then have periods: "get_dead_periods (scat_run es) = ps @ [(t, t, 0)]"
    by (simp add: get_dead_periods_def assms(1))
  have still: "still_dead_issues (scat_timeline_rows (scat_run es))
                 (fst (scat_dead_loop (scat_timeline_rows (scat_run es)) None [] ws we)) ws we = []"
    if inc: "sorted_wrt (\<lambda>a b. to_us a < to_us b) (map fst (alive_history (scat_run es)))"
    for ws we
  proof -
    let ?rows = "scat_timeline_rows (scat_run es)"
    let ?r = "map (\<lambda>(ts, status, name). (ts, status)) h"
    have rows: "?rows = ?r @ [(t, 0)]"
      using scat_timeline_rows_increasing[OF inc] assms(1) by simp
    have "fst (scat_dead_loop ?r None [] ws we) = None"
      using before scat_dead_loop_snoc_nonzero by auto
    then obtain iss where iss: "scat_dead_loop ?r None [] ws we = (None, iss)"
      by (cases "scat_dead_loop ?r None [] ws we") simp
    have "scat_dead_loop (?r @ [(t, 0)]) None [] ws we = (Some t, iss)"
      by (simp add: scat_dead_loop_append iss)
    then show ?thesis
      unfolding rows by (simp add: still_dead_issues_def)
  qed
  show ?thesis using periods still by (simp add: Let_def)
qed

lemma alive_history_take_4:
  "alive_history (scat_run (take 4 liveness_example)) =
     [(at_time 0 0 1 0, 3, ''ReportScatAlive''), (at_time 0 0 3 0, 0, ''ReportScatDead'')]"
  by (simp add: liveness_example_def make_entry_def scat_run_def alive_history_process_entry
      alive_status_process_entry scat_init_def alive_marker_examples)

lemma alive_history_backwards_clock:
  "alive_history (scat_run backwards_clock_example) =
     [(at_time 0 1 40 0, 0, ''ReportScatDead''), (at_time 0 0 50 0, 3, ''ReportScatAlive''),
      (at_time 0 3 20 0, 0, ''ReportScatDead'')]"
  by (simp add: backwards_clock_example_def make_entry_def scat_run_def
      alive_history_process_entry alive_status_process_entry scat_init_def alive_marker_examples)

text \<open>
  The amended C10 at the first four of the five example entries (statuses 3, 3, 0, 0), whose
  timestamps increase, and its first half at the three entries whose timestamps go back.
\<close>

theorem final_dead_period_is_empty_witness:
  "get_dead_periods (scat_run (take 4 liveness_example)) \<noteq> [] \<and>
   last (get_dead_periods (scat_run (take 4 liveness_example))) =
     (at_time 0 0 3 0, at_time 0 0 3 0, 0) \<and>
   (let rows = scat_timeline_rows (scat_run (take 4 liveness_example)) in
      still_dead_issues rows (fst (scat_dead_loop rows None [] None None)) None None = []) \<and>
   get_dead_periods (scat_run backwards_clock_example) \<noteq> [] \<and>
   last (get_dead_periods (scat_run backwards_clock_example)) =
     (at_time 0 3 20 0, at_time 0 3 20 0, 0)"
  using final_dead_period_is_empty
          [of "take 4 liveness_example" "[(at_time 0 0 1 0, 3, ''ReportScatAlive'')]"
              "at_time 0 0 3 0" "''ReportScatDead''"]
        final_dead_period_is_empty
          [of backwards_clock_example
              "[(at_time 0 1 40 0, 0, ''ReportScatDead''), (at_time 0 0 50 0, 3, ''ReportScatAlive'')]"
              "at_time 0 3 20 0" "''ReportScatDead''"]
  by (simp add: alive_history_take_4 alive_history_backwards_clock to_us_at_time)

lemma at_time_eq [simp]:
  "at_time h m s us = at_time h' m' s' us' \<longleftrightarrow> h = h' \<and> m = m' \<and> s = s' \<and> us = us'"
  by (auto simp: at_time_def)

lemma scat_timeline_rows_backwards_clock:
  "scat_timeline_rows (scat_run backwards_clock_example) =
     [(at_time 0 0 50 0, 3), (at_time 0 1 40 0, 0), (at_time 0 3 20 0, 0)]"
  by (simp add: scat_timeline_rows_def alive_history_backwards_clock insert_batch_def
      to_us_at_time)

text \<open>
  C10, as the specification states it, fails in its second half. The rule engine does not
  read the history but the stored timeline, ordered by timestamp. When the clock of the log
  goes back (dead at 00:01:40, alive at 00:00:50, dead at 00:03:20), the last transition of
  the history has status 0, and yet the stored rows are alive, dead, dead: the dead run
  opens at 00:01:40, the last row is at 00:03:20, and the branch "still dead at end of
  file" reports a run of 100 seconds.
\<close>

theorem final_dead_period_counterexample:
  "snd (snd (last (alive_history (scat_run backwards_clock_example)))) = ''ReportScatDead'' \<and>
   fst (snd (last (alive_history (scat_run backwards_clock_example)))) = 0 \<and>
   check_scat_dead (scat_timeline_rows (scat_run backwards_clock_example)) None None =
     [make_issue SCAT_DEAD 0.9 (UntilEndOfFile (at_time 0 1 40 0)) [StillDeadMinutes (100 / 60)]]"
  by (simp add: alive_history_backwards_clock scat_timeline_rows_backwards_clock
      check_scat_dead_def still_dead_issues_def outside_window_def total_seconds_def
      to_us_at_time)

subsection \<open>The card-read detector\<close>

lemma is_real_noread_iff: "is_real_noread r \<longleftrightarrow> is_noread r \<and> \<not> is_quick r"
  by (auto simp: is_real_noread_def is_noread_def is_quick_def split: option.splits)

lemma noread_scan_eq:
  "noread_scan rows no_reads quick_cancels =
     (no_reads @ filter is_real_noread rows,
      quick_cancels + length (filter (\<lambda>r. is_noread r \<and> is_quick r) rows))"
  by (induction rows no_reads quick_cancels rule: noread_scan.induct)
     (simp_all add: is_real_noread_iff)

lemma length_filter_noread:
  "length (filter is_noread rows) =
     length (filter is_real_noread rows) + length (filter (\<lambda>r. is_noread r \<and> is_quick r) rows)"
  by (induction rows) (auto simp: is_real_noread_iff)

lemma burst_loop_append:
  "burst_loop (xs @ ys) m c = (case burst_loop xs m c of (m', c') \<Rightarrow> burst_loop ys m' c')"
  by (induction xs m c rule: burst_loop.induct) simp_all

lemma burst_loop_no_real_noread:
  "\<forall>r\<in>set xs. \<not> is_real_noread r \<Longrightarrow>
   burst_loop xs m c = (if xs = [] then (m, c) else (max m c, 0))"
  by (induction xs m c rule: burst_loop.induct) (auto simp: max_def)

lemma max_burst_of_single_burst:
  assumes "\<forall>r\<in>set pre. \<not> is_real_noread r" "\<forall>r\<in>set post. \<not> is_real_noread r"
      and "is_real_noread a" "is_real_noread b" "is_real_noread c"
  shows "max_burst_of (pre @ [a, b, c] @ post) = 3"
proof -
  have pre: "burst_loop pre 0 0 = (0, 0)"
    using burst_loop_no_real_noread[OF assms(1), of 0 0] by simp
  have run: "burst_loop [a, b, c] 0 0 = (0, 3)"
    using assms(3-5) by simp
  have post: "burst_loop post 0 3 = (if post = [] then (0, 3) else (3, 0))"
    using burst_loop_no_real_noread[OF assms(2), of 0 3] by simp
  have "burst_loop (pre @ [a, b, c] @ post) 0 0 = burst_loop ([a, b, c] @ post) 0 0"
    by (simp only: burst_loop_append[of pre] pre prod.case)
  also have "\<dots> = burst_loop post 0 3"
    by (simp only: burst_loop_append[of "[a, b, c]"] run prod.case)
  finally show ?thesis
    using post by (simp add: max_burst_of_def)
qed

text \<open>
  C8: in a window of 20 transactions of which 5 are no-reads (not approved, no card type,
  no host latency), where the three no-reads \<open>a\<close>, \<open>b\<close>, \<open>c\<close> that do not last under
  15000 ms follow one another and no other row is such a no-read (so that the two others
  are quick cancels), the detector takes its acute branch and returns exactly one issue, of
  type \<^verbatim>\<open>card_read_intermittent\<close> and of confidence
  \<open>min 0.95 (0.7 + 3 * 0.05) = 0.85\<close>, whose evidence reports 3 failed reads out of 20
  (15 percent), 2 quick cancels left out, and a burst of 3.
\<close>

theorem burst_of_three_is_acute:
  assumes "length (pre @ [a, b, c] @ post) = 20"
      and "length (filter is_noread (pre @ [a, b, c] @ post)) = 5"
      and "is_real_noread a" "is_real_noread b" "is_real_noread c"
      and "\<forall>r\<in>set pre. \<not> is_real_noread r" "\<forall>r\<in>set post. \<not> is_real_noread r"
  shows "check_card_read_intermittent (pre @ [a, b, c] @ post) hourly =
           [\<lparr>issue_type_name = ''card_read_intermittent'', severity = ''high'',
             severity_rank = 2, confidence = 0.85,
             description = it_description CARD_READ_INTERMITTENT,
             time_range = Between (row_start_time a) (row_start_time c),
             evidence =
               [FailedToRead 3 20 15, QuickCancels 2, BurstOf 3,
                AvgCustomerWait (avg_wait_s [a, b, c])]
               @ (if 20 < timeout_pct [a, b, c]
                  then [TimeoutCluster (timeout_pct [a, b, c])] else [])
               @ [TotalWastedMinutes (total_wait_s [a, b, c] / 60)],
             resolution_steps = it_resolution_steps CARD_READ_INTERMITTENT\<rparr>] \<and>
         map confidence (check_card_read_intermittent (pre @ [a, b, c] @ post) hourly) =
           [min 0.95 (0.7 + 3 * 0.05)] \<and>
         QuickCancels 2 \<in>
           set (evidence (hd (check_card_read_intermittent (pre @ [a, b, c] @ post) hourly)))"
proof -
  let ?rows = "pre @ [a, b, c] @ post"
  have real: "filter is_real_noread ?rows = [a, b, c]"
    using assms(3-7) by simp
  have "length (filter (\<lambda>r. is_noread r \<and> is_quick r) ?rows) = 2"
    using length_filter_noread[of ?rows] assms(2) unfolding real by simp
  then have scan: "noread_scan ?rows [] 0 = ([a, b, c], 2)"
    unfolding noread_scan_eq real by simp
  have burst: "max_burst_of ?rows = 3"
    using max_burst_of_single_burst[OF assms(6,7,3,4,5)] .
  have result: "check_card_read_intermittent ?rows hourly =
           [\<lparr>issue_type_name = ''card_read_intermittent'', severity = ''high'',
             severity_rank = 2, confidence = 0.85,
             description = it_description CARD_READ_INTERMITTENT,
             time_range = Between (row_start_time a) (row_start_time c),
             evidence =
               [FailedToRead 3 20 15, QuickCancels 2, BurstOf 3,
                AvgCustomerWait (avg_wait_s [a, b, c])]
               @ (if 20 < timeout_pct [a, b, c]
                  then [TimeoutCluster (timeout_pct [a, b, c])] else [])
               @ [TotalWastedMinutes (total_wait_s [a, b, c] / 60)],
             resolution_steps = it_resolution_steps CARD_READ_INTERMITTENT\<rparr>]"
    unfolding check_card_read_intermittent_def scan burst assms(1)
    by (simp add: Let_def make_issue_def acute_evidence_def CARD_READ_INTERMITTENT_def)
  show ?thesis
    unfolding result by simp
qed

lemma example_rows:
  "is_real_noread (approved_row t) = False"
  "is_noread (approved_row t) = False"
  "is_real_noread (noread_row t d) = (15000 \<le> d)"
  "is_noread (noread_row t d) = True"
  by (simp_all add: is_real_noread_def is_noread_def approved_row_def noread_row_def
      MIN_WAIT_MS_def)

lemma example_waits:
  "avg_wait_s [noread_row t1 45000, noread_row t2 45000, noread_row t3 30000] = 40"
  "total_wait_s [noread_row t1 45000, noread_row t2 45000, noread_row t3 30000] = 120"
  "timeout_pct [noread_row t1 45000, noread_row t2 45000, noread_row t3 30000] = 100"
  by (simp_all add: avg_wait_s_def total_wait_s_def timeout_pct_def wait_times_of_def
      List.map_filter_def noread_row_def)

text \<open>
  C8 at the example window of 20 transactions: one issue of confidence 0.85; its evidence
  has 3 failed reads out of 20, 2 quick cancels, a burst of 3, an average wait of 40 seconds,
  all the failures in the timeout zone, and 2 minutes of wasted wait.
\<close>

theorem burst_of_three_is_acute_witness:
  "check_card_read_intermittent
     (burst_example_pre
      @ [noread_row (at_time 9 7 0 0) 45000, noread_row (at_time 9 8 0 0) 45000,
         noread_row (at_time 9 9 0 0) 30000]
      @ burst_example_post) [] =
     [\<lparr>issue_type_name = ''card_read_intermittent'', severity = ''high'',
       severity_rank = 2, confidence = 0.85,
       description = it_description CARD_READ_INTERMITTENT,
       time_range = Between (at_time 9 7 0 0) (at_time 9 9 0 0),
       evidence =
         [FailedToRead 3 20 15, QuickCancels 2, BurstOf 3, AvgCustomerWait 40,
          TimeoutCluster 100, TotalWastedMinutes 2],
       resolution_steps = it_resolution_steps CARD_READ_INTERMITTENT\<rparr>]"
  using burst_of_three_is_acute
          [of burst_example_pre "noread_row (at_time 9 7 0 0) 45000"
              "noread_row (at_time 9 8 0 0) 45000" "noread_row (at_time 9 9 0 0) 30000"
              burst_example_post "[]"]
  by (simp add: burst_example_pre_def burst_example_post_def example_rows example_waits)
     (simp add: noread_row_def)

subsection \<open>The health segmenter\<close>

lemma health_step_start:
  assumes "category e = ''SVREPS''" "re_search EXCHANGE_INFO_SEND (message e) = Some m"
  shows "health_step current e =
           (Some (HealthCheckData\<lparr>hc_start_line := line_number e,
                                   hc_start_time := Some (timestamp e),
                                   check_type := ''ExchangeInfo'',
                                   target_host := grp m 2\<rparr>),
            (case current of Some c \<Rightarrow> [c] | None \<Rightarrow> []))"
  using assms by (simp add: health_step_def)

lemma check_type_set_http_status [simp]:
  "check_type (set_http_status s h) = check_type h"
  by (simp add: set_http_status_def Let_def split: option.splits)

lemma health_other_exchange:
  "fst (health_other current msg e) = current"
  "filter (\<lambda>h. check_type h = ''ExchangeInfo'') (snd (health_other current msg e)) = []"
  by (simp_all add: health_other_def HealthCheckData_def split: option.splits)

lemma health_step_cases:
  "(is_exchange_start e \<and> fst (health_step current e) \<noteq> None \<and>
      (\<forall>c. fst (health_step current e) = Some c \<longrightarrow> check_type c = ''ExchangeInfo'') \<and>
      snd (health_step current e) = (case current of Some c \<Rightarrow> [c] | None \<Rightarrow> [])) \<or>
   (\<not> is_exchange_start e \<and> fst (health_step current e) = None \<and>
      (\<exists>c h. current = Some c \<and> check_type c = ''ExchangeInfo'' \<and>
         snd (health_step current e) = [h] \<and> check_type h = ''ExchangeInfo'')) \<or>
   (\<not> is_exchange_start e \<and> fst (health_step current e) = current \<and>
      filter (\<lambda>h. check_type h = ''ExchangeInfo'') (snd (health_step current e)) = [])"
proof (cases "category e = ''SVREPS''")
  case False
  then show ?thesis by (simp add: health_step_def is_exchange_start_def)
next
  case svr: True
  show ?thesis
  proof (cases "re_search EXCHANGE_INFO_SEND (message e)")
    case (Some m)
    then show ?thesis
      using svr by (simp add: health_step_def is_exchange_start_def HealthCheckData_def)
  next
    case nosend: None
    then have ns: "\<not> is_exchange_start e" by (simp add: is_exchange_start_def)
    show ?thesis
    proof (cases "re_search EXCHANGE_INFO_RESULT (message e)")
      case None
      then show ?thesis
        using svr nosend ns by (simp add: health_step_def health_other_exchange)
    next
      case res: (Some m)
      show ?thesis
      proof (cases current)
        case None
        then show ?thesis
          using svr nosend res ns by (simp add: health_step_def health_other_exchange)
      next
        case (Some c)
        show ?thesis
        proof (cases "check_type c = ''ExchangeInfo''")
          case True
          then show ?thesis
            using svr nosend res Some ns
            by (simp add: health_step_def Let_def split: option.splits)
        next
          case False
          then show ?thesis
            using svr nosend res Some ns by (simp add: health_step_def health_other_exchange)
        qed
      qed
    qed
  qed
qed

lemma health_loop_count:
  "current = None \<or> (\<exists>c. current = Some c \<and> check_type c = ''ExchangeInfo'') \<Longrightarrow>
   length (filter (\<lambda>h. check_type h = ''ExchangeInfo'') (health_loop es current)) =
     length (filter is_exchange_start es) + (if current = None then 0 else 1)"
proof (induction es arbitrary: current)
  case Nil
  then show ?case by auto
next
  case (Cons e es)
  obtain cur' out where step: "health_step current e = (cur', out)"
    by (cases "health_step current e")
  consider
    (start) "is_exchange_start e" "cur' \<noteq> None"
      "\<forall>c. cur' = Some c \<longrightarrow> check_type c = ''ExchangeInfo''"
      "out = (case current of Some c \<Rightarrow> [c] | None \<Rightarrow> [])"
  | (resolve) "\<not> is_exchange_start e" "cur' = None"
      "\<exists>c h. current = Some c \<and> check_type c = ''ExchangeInfo'' \<and> out = [h] \<and>
         check_type h = ''ExchangeInfo''"
  | (other) "\<not> is_exchange_start e" "cur' = current"
      "filter (\<lambda>h. check_type h = ''ExchangeInfo'') out = []"
    using health_step_cases[of e current] step by auto
  then show ?case
  proof cases
    case start
    have "length (filter (\<lambda>h. check_type h = ''ExchangeInfo'') (health_loop es cur')) =
          length (filter is_exchange_start es) + 1"
      using Cons.IH[of cur'] start(2,3) by auto
    then show ?thesis
      using start(1,4) step Cons.prems by (auto split: option.splits)
  next
    case resolve
    have "length (filter (\<lambda>h. check_type h = ''ExchangeInfo'') (health_loop es cur')) =
          length (filter is_exchange_start es)"
      using Cons.IH[of cur'] resolve(2) by simp
    then show ?thesis
      using resolve step by auto
  next
    case other
    have "length (filter (\<lambda>h. check_type h = ''ExchangeInfo'') (health_loop es cur')) =
          length (filter is_exchange_start es) + (if current = None then 0 else 1)"
      using Cons.IH[of cur'] other(2) Cons.prems by simp
    then show ?thesis
      using other step by simp
  qed
qed

text \<open>
  C4, amended: an ExchangeInfo record that never receives its result marker is emitted all
  the same. When a second start marker arrives while a record is open, the open record is
  yielded as it is and a new one is opened; a record still open at the end of the stream is
  flushed as it is. So, for every entry stream, the output has exactly one ExchangeInfo
  record for each start marker of the stream.
\<close>

theorem unresolved_exchange_info_is_emitted:
  "(category e = ''SVREPS'' \<and> re_search EXCHANGE_INFO_SEND (message e) = Some m \<longrightarrow>
      health_loop (e # es) (Some c) =
        c # health_loop es
              (Some \<lparr>hc_start_line = line_number e, hc_end_line = 0,
                     hc_start_time = Some (timestamp e), hc_end_time = None,
                     check_type = ''ExchangeInfo'', target_host = grp m 2, success = False,
                     error_code = [], http_status = [], latency_ms = 0\<rparr>)) \<and>
   health_loop [] (Some c) = [c] \<and>
   length (filter (\<lambda>h. check_type h = ''ExchangeInfo'') (health_process_entries entries)) =
     length (filter is_exchange_start entries)"
proof (intro conjI impI)
  assume "category e = ''SVREPS'' \<and> re_search EXCHANGE_INFO_SEND (message e) = Some m"
  then show "health_loop (e # es) (Some c) =
        c # health_loop es
              (Some \<lparr>hc_start_line = line_number e, hc_end_line = 0,
                     hc_start_time = Some (timestamp e), hc_end_time = None,
                     check_type = ''ExchangeInfo'', target_host = grp m 2, success = False,
                     error_code = [], http_status = [], latency_ms = 0\<rparr>)"
    by (simp add: health_step_start HealthCheckData_def)
next
  show "health_loop [] (Some c) = [c]" by simp
next
  show "length (filter (\<lambda>h. check_type h = ''ExchangeInfo'') (health_process_entries entries)) =
        length (filter is_exchange_start entries)"
    using health_loop_count[of None entries] by (simp add: health_process_entries_def)
qed

lemma exchange_info_send_example:
  "re_search EXCHANGE_INFO_SEND
     ''ServerEPS_LSExchangeInfo Company[145714] Store[1] Addr[trn2.servereps.com]'' =
   Some [(2, ''trn2.servereps.com''), (1, ''145714'')]"
  "re_search EXCHANGE_INFO_SEND
     ''ServerEPS_LSExchangeInfo Company[145714] Store[1] Addr[trn3.servereps.com]'' =
   Some [(2, ''trn3.servereps.com''), (1, ''145714'')]"
  by (simp_all add: EXCHANGE_INFO_SEND_def class_defs text_defs)

lemma health_step_examples:
  "health_step current
     (make_entry n t ''SVREPS''
        ''ServerEPS_LSExchangeInfo Company[145714] Store[1] Addr[trn2.servereps.com]'') =
     (Some (HealthCheckData\<lparr>hc_start_line := n, hc_start_time := Some t,
                             check_type := ''ExchangeInfo'',
                             target_host := ''trn2.servereps.com''\<rparr>),
      (case current of Some c \<Rightarrow> [c] | None \<Rightarrow> []))"
  "health_step current
     (make_entry n t ''SVREPS''
        ''ServerEPS_LSExchangeInfo Company[145714] Store[1] Addr[trn3.servereps.com]'') =
     (Some (HealthCheckData\<lparr>hc_start_line := n, hc_start_time := Some t,
                             check_type := ''ExchangeInfo'',
                             target_host := ''trn3.servereps.com''\<rparr>),
      (case current of Some c \<Rightarrow> [c] | None \<Rightarrow> []))"
  using health_step_start
          [of "make_entry n t ''SVREPS''
                 ''ServerEPS_LSExchangeInfo Company[145714] Store[1] Addr[trn2.servereps.com]''"
              "[(2, ''trn2.servereps.com''), (1, ''145714'')]" current]
        health_step_start
          [of "make_entry n t ''SVREPS''
                 ''ServerEPS_LSExchangeInfo Company[145714] Store[1] Addr[trn3.servereps.com]''"
              "[(2, ''trn3.servereps.com''), (1, ''145714'')]" current]
  by (simp_all add: make_entry_def exchange_info_send_example grp_def group_def
      del: re_search.simps)

lemma is_exchange_start_examples:
  "is_exchange_start
     (make_entry n t ''SVREPS''
        ''ServerEPS_LSExchangeInfo Company[145714] Store[1] Addr[trn2.servereps.com]'')"
  "is_exchange_start
     (make_entry n t ''SVREPS''
        ''ServerEPS_LSExchangeInfo Company[145714] Store[1] Addr[trn3.servereps.com]'')"
  by (simp_all add: is_exchange_start_def make_entry_def exchange_info_send_example
      del: re_search.simps)

text \<open>
  C4, as the specification states it, fails. On a stream of two ExchangeInfo start markers
  and no result marker, the segmenter yields both records, unresolved (end line 0, no end
  time, not successful): the first when the second marker arrives, the second at the end of
  the stream.
\<close>

theorem unresolved_exchange_info_counterexample:
  "health_process_entries unresolved_example =
     [\<lparr>hc_start_line = 1, hc_end_line = 0, hc_start_time = Some (at_time 8 0 0 0),
       hc_end_time = None, check_type = ''ExchangeInfo'',
       target_host = ''trn2.servereps.com'', success = False, error_code = [],
       http_status = [], latency_ms = 0\<rparr>,
      \<lparr>hc_start_line = 2, hc_end_line = 0, hc_start_time = Some (at_time 8 5 0 0),
       hc_end_time = None, check_type = ''ExchangeInfo'',
       target_host = ''trn3.servereps.com'', success = False, error_code = [],
       http_status = [], latency_ms = 0\<rparr>]"
  by (simp add: health_process_entries_def unresolved_example_def health_step_examples
      HealthCheckData_def)

text \<open>
  The amended C4 at the second start marker of the example, with the record of the first
  marker open, and at the whole example.
\<close>

theorem unresolved_exchange_info_is_emitted_witness:
  "health_loop [unresolved_example ! 1]
     (Some \<lparr>hc_start_line = 1, hc_end_line = 0, hc_start_time = Some (at_time 8 0 0 0),
            hc_end_time = None, check_type = ''ExchangeInfo'',
            target_host = ''trn2.servereps.com'', success = False, error_code = [],
            http_status = [], latency_ms = 0\<rparr>) =
     [\<lparr>hc_start_line = 1, hc_end_line = 0, hc_start_time = Some (at_time 8 0 0 0),
       hc_end_time = None, check_type = ''ExchangeInfo'',
       target_host = ''trn2.servereps.com'', success = False, error_code = [],
       http_status = [], latency_ms = 0\<rparr>,
      \<lparr>hc_start_line = 2, hc_end_line = 0, hc_start_time = Some (at_time 8 5 0 0),
       hc_end_time = None, check_type = ''ExchangeInfo'',
       target_host = ''trn3.servereps.com'', success = False, error_code = [],
       http_status = [], latency_ms = 0\<rparr>] \<and>
   length (filter (\<lambda>h. check_type h = ''ExchangeInfo'')
             (health_process_entries unresolved_example)) = 2"
  using unresolved_exchange_info_is_emitted
    [of "unresolved_example ! 1" "[(2, ''trn3.servereps.com''), (1, ''145714'')]" "[]"
        "\<lparr>hc_start_line = 1, hc_end_line = 0, hc_start_time = Some (at_time 8 0 0 0),
            hc_end_time = None, check_type = ''ExchangeInfo'',
            target_host = ''trn2.servereps.com'', success = False, error_code = [],
            http_status = [], latency_ms = 0\<rparr>" unresolved_example]
  by (simp add: unresolved_example_def is_exchange_start_examples)
     (simp add: make_entry_def exchange_info_send_example grp_def group_def
        del: re_search.simps)

subsection \<open>The transaction segmenter on the four lines of a purchase\<close>

lemma se_send_line_extractors:
  "re_search PATTERNS_begin_order
     ''SE_SEND(TimeOutSecs 30) [60 bytes] URL[https://trn2.servereps.com/sCAT2] Aa145714 Ab1 Ae9218 BnDB Da5000 Bp1234 BfE'' = None"
  "re_search PATTERNS_card_entry
     ''SE_SEND(TimeOutSecs 30) [60 bytes] URL[https://trn2.servereps.com/sCAT2] Aa145714 Ab1 Ae9218 BnDB Da5000 Bp1234 BfE'' = None"
  "re_search PATTERNS_aid
     ''SE_SEND(TimeOutSecs 30) [60 bytes] URL[https://trn2.servereps.com/sCAT2] Aa145714 Ab1 Ae9218 BnDB Da5000 Bp1234 BfE'' = None"
  "re_search PATTERNS_app_label
     ''SE_SEND(TimeOutSecs 30) [60 bytes] URL[https://trn2.servereps.com/sCAT2] Aa145714 Ab1 Ae9218 BnDB Da5000 Bp1234 BfE'' = None"
  "re_search PATTERNS_cvm_result
     ''SE_SEND(TimeOutSecs 30) [60 bytes] URL[https://trn2.servereps.com/sCAT2] Aa145714 Ab1 Ae9218 BnDB Da5000 Bp1234 BfE'' = None"
  "re_search PATTERNS_tvr
     ''SE_SEND(TimeOutSecs 30) [60 bytes] URL[https://trn2.servereps.com/sCAT2] Aa145714 Ab1 Ae9218 BnDB Da5000 Bp1234 BfE'' = None"
  "re_search PATTERNS_cmd_sequence
     ''SE_SEND(TimeOutSecs 30) [60 bytes] URL[https://trn2.servereps.com/sCAT2] Aa145714 Ab1 Ae9218 BnDB Da5000 Bp1234 BfE'' = None"
  "re_search PATTERNS_quickchip
     ''SE_SEND(TimeOutSecs 30) [60 bytes] URL[https://trn2.servereps.com/sCAT2] Aa145714 Ab1 Ae9218 BnDB Da5000 Bp1234 BfE'' = None"
  "re_search PATTERNS_auth_number
     ''SE_SEND(TimeOutSecs 30) [60 bytes] URL[https://trn2.servereps.com/sCAT2] Aa145714 Ab1 Ae9218 BnDB Da5000 Bp1234 BfE'' = None"
  "re_search PATTERNS_tender_type
     ''SE_SEND(TimeOutSecs 30) [60 bytes] URL[https://trn2.servereps.com/sCAT2] Aa145714 Ab1 Ae9218 BnDB Da5000 Bp1234 BfE'' = None"
  by (simp_all add: PATTERNS_begin_order_def PATTERNS_card_entry_def PATTERNS_aid_def PATTERNS_app_label_def PATTERNS_cvm_result_def PATTERNS_tvr_def PATTERNS_cmd_sequence_def PATTERNS_quickchip_def PATTERNS_auth_number_def PATTERNS_tender_type_def
      class_defs text_defs)

lemma se_send_line_markers:
  "re_search PATTERNS_se_send
     ''SE_SEND(TimeOutSecs 30) [60 bytes] URL[https://trn2.servereps.com/sCAT2] Aa145714 Ab1 Ae9218 BnDB Da5000 Bp1234 BfE'' = Some [(3, ''9218''), (2, ''https://trn2.servereps.com/sCAT2''), (1, ''30'')]"
  "re_search PATTERNS_se_recv
     ''SE_SEND(TimeOutSecs 30) [60 bytes] URL[https://trn2.servereps.com/sCAT2] Aa145714 Ab1 Ae9218 BnDB Da5000 Bp1234 BfE'' = None"
  "re_search PATTERNS_response_code
     ''SE_SEND(TimeOutSecs 30) [60 bytes] URL[https://trn2.servereps.com/sCAT2] Aa145714 Ab1 Ae9218 BnDB Da5000 Bp1234 BfE'' = None"
  "re_search PATTERNS_host_response
     ''SE_SEND(TimeOutSecs 30) [60 bytes] URL[https://trn2.servereps.com/sCAT2] Aa145714 Ab1 Ae9218 BnDB Da5000 Bp1234 BfE'' = None"
  "re_search PATTERNS_reset_clear_end
     ''SE_SEND(TimeOutSecs 30) [60 bytes] URL[https://trn2.servereps.com/sCAT2] Aa145714 Ab1 Ae9218 BnDB Da5000 Bp1234 BfE'' = None"
  "re_search PATTERNS_send_ack_fail
     ''SE_SEND(TimeOutSecs 30) [60 bytes] URL[https://trn2.servereps.com/sCAT2] Aa145714 Ab1 Ae9218 BnDB Da5000 Bp1234 BfE'' = None"
  "re_search PATTERNS_scat_state
     ''SE_SEND(TimeOutSecs 30) [60 bytes] URL[https://trn2.servereps.com/sCAT2] Aa145714 Ab1 Ae9218 BnDB Da5000 Bp1234 BfE'' = None"
  "re_search PATTERNS_end_order
     ''SE_SEND(TimeOutSecs 30) [60 bytes] URL[https://trn2.servereps.com/sCAT2] Aa145714 Ab1 Ae9218 BnDB Da5000 Bp1234 BfE'' = None"
  by (simp_all add: PATTERNS_se_send_def PATTERNS_se_recv_def PATTERNS_response_code_def PATTERNS_host_response_def PATTERNS_reset_clear_end_def PATTERNS_send_ack_fail_def PATTERNS_scat_state_def PATTERNS_end_order_def
      class_defs text_defs)

lemma se_send_line_fields:
  "re_search SE_SEND_amount
     ''SE_SEND(TimeOutSecs 30) [60 bytes] URL[https://trn2.servereps.com/sCAT2] Aa145714 Ab1 Ae9218 BnDB Da5000 Bp1234 BfE'' = Some [(1, ''5000'')]"
  "re_search SE_SEND_cashback
     ''SE_SEND(TimeOutSecs 30) [60 bytes] URL[https://trn2.servereps.com/sCAT2] Aa145714 Ab1 Ae9218 BnDB Da5000 Bp1234 BfE'' = None"
  "re_search SE_SEND_card_type_code
     ''SE_SEND(TimeOutSecs 30) [60 bytes] URL[https://trn2.servereps.com/sCAT2] Aa145714 Ab1 Ae9218 BnDB Da5000 Bp1234 BfE'' = Some [(1, ''DB'')]"
  "re_search SE_SEND_pan_last4
     ''SE_SEND(TimeOutSecs 30) [60 bytes] URL[https://trn2.servereps.com/sCAT2] Aa145714 Ab1 Ae9218 BnDB Da5000 Bp1234 BfE'' = Some [(1, ''1234'')]"
  "re_search SE_SEND_entry_method
     ''SE_SEND(TimeOutSecs 30) [60 bytes] URL[https://trn2.servereps.com/sCAT2] Aa145714 Ab1 Ae9218 BnDB Da5000 Bp1234 BfE'' = Some [(1, ''E'')]"
  "re_search SE_SEND_aid_field
     ''SE_SEND(TimeOutSecs 30) [60 bytes] URL[https://trn2.servereps.com/sCAT2] Aa145714 Ab1 Ae9218 BnDB Da5000 Bp1234 BfE'' = None"
  "re_search SE_SEND_app_label_field
     ''SE_SEND(TimeOutSecs 30) [60 bytes] URL[https://trn2.servereps.com/sCAT2] Aa145714 Ab1 Ae9218 BnDB Da5000 Bp1234 BfE'' = None"
  "re_search SE_SEND_tvr_field
     ''SE_SEND(TimeOutSecs 30) [60 bytes] URL[https://trn2.servereps.com/sCAT2] Aa145714 Ab1 Ae9218 BnDB Da5000 Bp1234 BfE'' = None"
  "re_search SE_SEND_cvm_field
     ''SE_SEND(TimeOutSecs 30) [60 bytes] URL[https://trn2.servereps.com/sCAT2] Aa145714 Ab1 Ae9218 BnDB Da5000 Bp1234 BfE'' = None"
  "re_search SE_SEND_tac_seq
     ''SE_SEND(TimeOutSecs 30) [60 bytes] URL[https://trn2.servereps.com/sCAT2] Aa145714 Ab1 Ae9218 BnDB Da5000 Bp1234 BfE'' = None"
  by (simp_all add: SE_SEND_amount_def SE_SEND_cashback_def SE_SEND_card_type_code_def SE_SEND_pan_last4_def SE_SEND_entry_method_def SE_SEND_aid_field_def SE_SEND_app_label_field_def SE_SEND_tvr_field_def SE_SEND_cvm_field_def SE_SEND_tac_seq_def
      class_defs text_defs)

lemma se_recv_line_extractors:
  "re_search PATTERNS_begin_order
     ''SE_RECV(1.743 secs) [250 bytes] Ae9218 Af00 Ag123456'' = None"
  "re_search PATTERNS_card_entry
     ''SE_RECV(1.743 secs) [250 bytes] Ae9218 Af00 Ag123456'' = None"
  "re_search PATTERNS_aid
     ''SE_RECV(1.743 secs) [250 bytes] Ae9218 Af00 Ag123456'' = None"
  "re_search PATTERNS_app_label
     ''SE_RECV(1.743 secs) [250 bytes] Ae9218 Af00 Ag123456'' = None"
  "re_search PATTERNS_cvm_result
     ''SE_RECV(1.743 secs) [250 bytes] Ae9218 Af00 Ag123456'' = None"
  "re_search PATTERNS_tvr
     ''SE_RECV(1.743 secs) [250 bytes] Ae9218 Af00 Ag123456'' = None"
  "re_search PATTERNS_cmd_sequence
     ''SE_RECV(1.743 secs) [250 bytes] Ae9218 Af00 Ag123456'' = None"
  "re_search PATTERNS_quickchip
     ''SE_RECV(1.743 secs) [250 bytes] Ae9218 Af00 Ag123456'' = None"
  "re_search PATTERNS_auth_number
     ''SE_RECV(1.743 secs) [250 bytes] Ae9218 Af00 Ag123456'' = None"
  "re_search PATTERNS_tender_type
     ''SE_RECV(1.743 secs) [250 bytes] Ae9218 Af00 Ag123456'' = None"
  by (simp_all add: PATTERNS_begin_order_def PATTERNS_card_entry_def PATTERNS_aid_def PATTERNS_app_label_def PATTERNS_cvm_result_def PATTERNS_tvr_def PATTERNS_cmd_sequence_def PATTERNS_quickchip_def PATTERNS_auth_number_def PATTERNS_tender_type_def
      class_defs text_defs)

lemma se_recv_line_markers:
  "re_search PATTERNS_se_send
     ''SE_RECV(1.743 secs) [250 bytes] Ae9218 Af00 Ag123456'' = None"
  "re_search PATTERNS_se_recv
     ''SE_RECV(1.743 secs) [250 bytes] Ae9218 Af00 Ag123456'' = Some [(2, ''9218''), (1, ''1.743'')]"
  "re_search PATTERNS_response_code
     ''SE_RECV(1.743 secs) [250 bytes] Ae9218 Af00 Ag123456'' = None"
  "re_search PATTERNS_host_response
     ''SE_RECV(1.743 secs) [250 bytes] Ae9218 Af00 Ag123456'' = None"
  "re_search PATTERNS_reset_clear_end
     ''SE_RECV(1.743 secs) [250 bytes] Ae9218 Af00 Ag123456'' = None"
  "re_search PATTERNS_send_ack_fail
     ''SE_RECV(1.743 secs) [250 bytes] Ae9218 Af00 Ag123456'' = None"
  "re_search PATTERNS_scat_state
     ''SE_RECV(1.743 secs) [250 bytes] Ae9218 Af00 Ag123456'' = None"
  "re_search PATTERNS_end_order
     ''SE_RECV(1.743 secs) [250 bytes] Ae9218 Af00 Ag123456'' = None"
  by (simp_all add: PATTERNS_se_send_def PATTERNS_se_recv_def PATTERNS_response_code_def PATTERNS_host_response_def PATTERNS_reset_clear_end_def PATTERNS_send_ack_fail_def PATTERNS_scat_state_def PATTERNS_end_order_def
      class_defs text_defs)

lemma se_recv_line_fields:
  "re_search SE_RECV_response_code_host
     ''SE_RECV(1.743 secs) [250 bytes] Ae9218 Af00 Ag123456'' = Some [(1, ''00'')]"
  "re_search SE_RECV_auth_number
     ''SE_RECV(1.743 secs) [250 bytes] Ae9218 Af00 Ag123456'' = Some [(1, ''123456'')]"
  "re_search SE_RECV_host_response
     ''SE_RECV(1.743 secs) [250 bytes] Ae9218 Af00 Ag123456'' = None"
  by (simp_all add: SE_RECV_response_code_host_def SE_RECV_auth_number_def SE_RECV_host_response_def
      class_defs text_defs)

lemma end_order_line_searches:
  "re_search PATTERNS_begin_order
     ''MTX_POS_EndOrder'' = None"
  "re_search PATTERNS_card_entry
     ''MTX_POS_EndOrder'' = None"
  "re_search PATTERNS_aid
     ''MTX_POS_EndOrder'' = None"
  "re_search PATTERNS_app_label
     ''MTX_POS_EndOrder'' = None"
  "re_search PATTERNS_cvm_result
     ''MTX_POS_EndOrder'' = None"
  "re_search PATTERNS_tvr
     ''MTX_POS_EndOrder'' = None"
  "re_search PATTERNS_cmd_sequence
     ''MTX_POS_EndOrder'' = None"
  "re_search PATTERNS_quickchip
     ''MTX_POS_EndOrder'' = None"
  "re_search PATTERNS_auth_number
     ''MTX_POS_EndOrder'' = None"
  "re_search PATTERNS_tender_type
     ''MTX_POS_EndOrder'' = None"
  "re_search PATTERNS_se_send
     ''MTX_POS_EndOrder'' = None"
  "re_search PATTERNS_se_recv
     ''MTX_POS_EndOrder'' = None"
  "re_search PATTERNS_response_code
     ''MTX_POS_EndOrder'' = None"
  "re_search PATTERNS_host_response
     ''MTX_POS_EndOrder'' = None"
  "re_search PATTERNS_end_order
     ''MTX_POS_EndOrder'' = Some []"
  by (simp_all add: PATTERNS_begin_order_def PATTERNS_card_entry_def PATTERNS_aid_def PATTERNS_app_label_def PATTERNS_cvm_result_def PATTERNS_tvr_def PATTERNS_cmd_sequence_def PATTERNS_quickchip_def PATTERNS_auth_number_def PATTERNS_tender_type_def PATTERNS_se_send_def PATTERNS_se_recv_def PATTERNS_response_code_def PATTERNS_host_response_def PATTERNS_end_order_def
      class_defs text_defs)

lemma begin_order_line_searches:
  "re_search PATTERNS_begin_order
     ''MTX_POS_BeginOrder'' = Some []"
  by (simp_all add: PATTERNS_begin_order_def
      class_defs text_defs)


lemma purchase_lines_parse:
  "parse_line src ''11/30/25 08:06:19.279 DLL-EX MTX_POS_BeginOrder'' n =
     Inr (Entry \<lparr>line_number = n, timestamp = at_time 8 6 19 279000, category = ''DLL-EX'',
                 message = ''MTX_POS_BeginOrder'', is_expanded = False, expansion_count = 1,
                 source_file = src\<rparr>)"
  "parse_line src ''11/30/25 08:07:31.399 SVREPS SE_SEND(TimeOutSecs 30) [60 bytes] URL[https://trn2.servereps.com/sCAT2] Aa145714 Ab1 Ae9218 BnDB Da5000 Bp1234 BfE'' n =
     Inr (Entry \<lparr>line_number = n, timestamp = at_time 8 7 31 399000, category = ''SVREPS'',
                 message = ''SE_SEND(TimeOutSecs 30) [60 bytes] URL[https://trn2.servereps.com/sCAT2] Aa145714 Ab1 Ae9218 BnDB Da5000 Bp1234 BfE'',
                 is_expanded = False, expansion_count = 1, source_file = src\<rparr>)"
  "parse_line src ''11/30/25 08:07:33.149 SVREPS SE_RECV(1.743 secs) [250 bytes] Ae9218 Af00 Ag123456'' n =
     Inr (Entry \<lparr>line_number = n, timestamp = at_time 8 7 33 149000, category = ''SVREPS'',
                 message = ''SE_RECV(1.743 secs) [250 bytes] Ae9218 Af00 Ag123456'',
                 is_expanded = False, expansion_count = 1, source_file = src\<rparr>)"
  "parse_line src ''11/30/25 08:08:40.447 DLL-EX MTX_POS_EndOrder'' n =
     Inr (Entry \<lparr>line_number = n, timestamp = at_time 8 8 40 447000, category = ''DLL-EX'',
                 message = ''MTX_POS_EndOrder'', is_expanded = False, expansion_count = 1,
                 source_file = src\<rparr>)"
  by (simp_all add: parse_line_def REPEAT_PATTERN_def LINE_PATTERN_def class_defs text_defs
      date_defs at_time_def)

lemma purchase_lines_entries:
  "read_entries src purchase_lines =
     Inr [\<lparr>line_number = 1, timestamp = at_time 8 6 19 279000, category = ''DLL-EX'',
            message = ''MTX_POS_BeginOrder'', is_expanded = False, expansion_count = 1,
            source_file = src\<rparr>,
          \<lparr>line_number = 2, timestamp = at_time 8 7 31 399000, category = ''SVREPS'',
            message = ''SE_SEND(TimeOutSecs 30) [60 bytes] URL[https://trn2.servereps.com/sCAT2] Aa145714 Ab1 Ae9218 BnDB Da5000 Bp1234 BfE'',
            is_expanded = False, expansion_count = 1, source_file = src\<rparr>,
          \<lparr>line_number = 3, timestamp = at_time 8 7 33 149000, category = ''SVREPS'',
            message = ''SE_RECV(1.743 secs) [250 bytes] Ae9218 Af00 Ag123456'',
            is_expanded = False, expansion_count = 1, source_file = src\<rparr>,
          \<lparr>line_number = 4, timestamp = at_time 8 8 40 447000, category = ''DLL-EX'',
            message = ''MTX_POS_EndOrder'', is_expanded = False, expansion_count = 1,
            source_file = src\<rparr>]"
  by (simp add: read_entries_def purchase_lines_def purchase_lines_parse process_def
      deque_append_def)

lemma py_float_1_743: "py_float ''1.743'' = Inr 1.743"
  by (simp add: py_float_def is_digit_def py_int_def digit_val_def)

lemmas extractor_defs =
  extract_fields_def extract_card_entry_def extract_aid_def extract_app_label_def
  extract_cvm_result_def extract_tvr_def extract_cmd_sequence_def extract_quickchip_def
  extract_auth_number_def extract_tender_type_def

lemmas se_send_defs =
  extract_se_send_fields_def se_send_amount_def se_send_cashback_def
  se_send_card_type_code_def se_send_pan_last4_def se_send_entry_method_def
  se_send_aid_field_def se_send_app_label_field_def se_send_tvr_field_def
  se_send_cvm_field_def se_send_tac_seq_def

lemmas se_recv_defs =
  extract_se_recv_fields_def se_recv_response_code_host_def se_recv_auth_number_def
  se_recv_host_response_def

lemmas step_defs =
  txn_process_entry_def track_entry_def on_se_send_def on_se_recv_def on_response_code_def
  on_host_response_def on_send_ack_fail_def on_scat_state_def start_new_def
  finalize_current_def flush_current_def

text \<open>
  C6: the four lines of the purchase, through the parser, the expander and the transaction
  segmenter, yield exactly one transaction, with card type \<^verbatim>\<open>Debit\<close>, amount 5000,
  last four digits \<^verbatim>\<open>1234\<close>, entry method \<^verbatim>\<open>E\<close>, response code \<^verbatim>\<open>AA\<close>,
  approved, and a host latency of 1743.0 ms. The latency is exact: the source computes
  \<^verbatim>\<open>float("1.743") * 1000\<close> in binary floating point, which is 1743.0 as well.
\<close>

theorem purchase_yields_one_debit_transaction:
  "transactions_of_lines src purchase_lines =
     Inr [\<lparr>start_line = 1, end_line = 4, start_time = Some (at_time 8 6 19 279000),
            end_time = Some (at_time 8 8 40 447000), entry_count = 3,
            sequence_number = ''9218'', card_type = ''Debit'', entry_method = ''E'',
            pan_last4 = ''1234'', aid = [], app_label = [], tac_sequence = [],
            cvm_result = [], response_code = ''AA'', host_response_code = [],
            authorization_number = ''123456'', amount_cents = 5000, cashback_cents = 0,
            host_url = ''https://trn2.servereps.com/sCAT2'', host_latency_ms = 1743,
            se_send_time = Some (at_time 8 7 31 399000),
            se_recv_time = Some (at_time 8 7 33 149000), tvr = [], is_quickchip = False,
            is_fallback = False, serial_error_count = 0, state_sequence = []\<rparr>] \<and>
   (case transactions_of_lines src purchase_lines of
      Inr [txn] \<Rightarrow>
        card_type txn = ''Debit'' \<and> amount_cents txn = 5000 \<and> pan_last4 txn = ''1234'' \<and>
        entry_method txn = ''E'' \<and> response_code txn = ''AA'' \<and> is_approved txn \<and>
        host_latency_ms txn = 1743.0
    | _ \<Rightarrow> False)"
proof -
  have "transactions_of_lines src purchase_lines =
     Inr [\<lparr>start_line = 1, end_line = 4, start_time = Some (at_time 8 6 19 279000),
            end_time = Some (at_time 8 8 40 447000), entry_count = 3,
            sequence_number = ''9218'', card_type = ''Debit'', entry_method = ''E'',
            pan_last4 = ''1234'', aid = [], app_label = [], tac_sequence = [],
            cvm_result = [], response_code = ''AA'', host_response_code = [],
            authorization_number = ''123456'', amount_cents = 5000, cashback_cents = 0,
            host_url = ''https://trn2.servereps.com/sCAT2'', host_latency_ms = 1743,
            se_send_time = Some (at_time 8 7 31 399000),
            se_recv_time = Some (at_time 8 7 33 149000), tvr = [], is_quickchip = False,
            is_fallback = False, serial_error_count = 0, state_sequence = []\<rparr>]"
    by (simp add: transactions_of_lines_def purchase_lines_entries txn_process_entries_def
        segmenter_init_def step_defs extractor_defs se_send_defs se_recv_defs
        TransactionData_def CARD_TYPE_MAP_def py_float_1_743 grp_def group_def strip_def
        rstrip_def is_space_def py_int_def digit_val_def
        begin_order_line_searches se_send_line_extractors se_send_line_markers
        se_send_line_fields se_recv_line_extractors se_recv_line_markers se_recv_line_fields
        end_order_line_searches
        del: re_search.simps)
  then show ?thesis
    by (simp add: is_approved_def)
qed

subsection \<open>The per-entry extractors of the transaction segmenter\<close>

text \<open>Each extractor leaves the fields of the others as they are.\<close>

lemma extract_card_entry_others [simp]:
  "aid (extract_card_entry e txn) = aid txn"
  "app_label (extract_card_entry e txn) = app_label txn"
  "cvm_result (extract_card_entry e txn) = cvm_result txn"
  "tvr (extract_card_entry e txn) = tvr txn"
  "tac_sequence (extract_card_entry e txn) = tac_sequence txn"
  "is_quickchip (extract_card_entry e txn) = is_quickchip txn"
  "authorization_number (extract_card_entry e txn) = authorization_number txn"
  "card_type (extract_card_entry e txn) = card_type txn"
  by (simp_all add: extract_card_entry_def split: option.splits)

lemma extract_aid_others [simp]:
  "entry_method (extract_aid e txn) = entry_method txn"
  "app_label (extract_aid e txn) = app_label txn"
  "cvm_result (extract_aid e txn) = cvm_result txn"
  "tvr (extract_aid e txn) = tvr txn"
  "tac_sequence (extract_aid e txn) = tac_sequence txn"
  "is_quickchip (extract_aid e txn) = is_quickchip txn"
  "authorization_number (extract_aid e txn) = authorization_number txn"
  "card_type (extract_aid e txn) = card_type txn"
  by (simp_all add: extract_aid_def split: option.splits)

lemma extract_app_label_others [simp]:
  "entry_method (extract_app_label e txn) = entry_method txn"
  "aid (extract_app_label e txn) = aid txn"
  "cvm_result (extract_app_label e txn) = cvm_result txn"
  "tvr (extract_app_label e txn) = tvr txn"
  "tac_sequence (extract_app_label e txn) = tac_sequence txn"
  "is_quickchip (extract_app_label e txn) = is_quickchip txn"
  "authorization_number (extract_app_label e txn) = authorization_number txn"
  "card_type (extract_app_label e txn) = card_type txn"
  by (simp_all add: extract_app_label_def split: option.splits)

lemma extract_cvm_result_others [simp]:
  "entry_method (extract_cvm_result e txn) = entry_method txn"
  "aid (extract_cvm_result e txn) = aid txn"
  "app_label (extract_cvm_result e txn) = app_label txn"
  "tvr (extract_cvm_result e txn) = tvr txn"
  "tac_sequence (extract_cvm_result e txn) = tac_sequence txn"
  "is_quickchip (extract_cvm_result e txn) = is_quickchip txn"
  "authorization_number (extract_cvm_result e txn) = authorization_number txn"
  "card_type (extract_cvm_result e txn) = card_type txn"
  by (simp_all add: extract_cvm_result_def split: option.splits)

lemma extract_tvr_others [simp]:
  "entry_method (extract_tvr e txn) = entry_method txn"
  "aid (extract_tvr e txn) = aid txn"
  "app_label (extract_tvr e txn) = app_label txn"
  "cvm_result (extract_tvr e txn) = cvm_result txn"
  "tac_sequence (extract_tvr e txn) = tac_sequence txn"
  "is_quickchip (extract_tvr e txn) = is_quickchip txn"
  "authorization_number (extract_tvr e txn) = authorization_number txn"
  "card_type (extract_tvr e txn) = card_type txn"
  by (simp_all add: extract_tvr_def split: option.splits)

lemma extract_cmd_sequence_others [simp]:
  "entry_method (extract_cmd_sequence e txn) = entry_method txn"
  "aid (extract_cmd_sequence e txn) = aid txn"
  "app_label (extract_cmd_sequence e txn) = app_label txn"
  "cvm_result (extract_cmd_sequence e txn) = cvm_result txn"
  "tvr (extract_cmd_sequence e txn) = tvr txn"
  "is_quickchip (extract_cmd_sequence e txn) = is_quickchip txn"
  "authorization_number (extract_cmd_sequence e txn) = authorization_number txn"
  "card_type (extract_cmd_sequence e txn) = card_type txn"
  by (simp_all add: extract_cmd_sequence_def split: option.splits)

lemma extract_quickchip_others [simp]:
  "entry_method (extract_quickchip e txn) = entry_method txn"
  "aid (extract_quickchip e txn) = aid txn"
  "app_label (extract_quickchip e txn) = app_label txn"
  "cvm_result (extract_quickchip e txn) = cvm_result txn"
  "tvr (extract_quickchip e txn) = tvr txn"
  "tac_sequence (extract_quickchip e txn) = tac_sequence txn"
  "authorization_number (extract_quickchip e txn) = authorization_number txn"
  "card_type (extract_quickchip e txn) = card_type txn"
  by (simp_all add: extract_quickchip_def split: option.splits)

lemma extract_auth_number_others [simp]:
  "entry_method (extract_auth_number e txn) = entry_method txn"
  "aid (extract_auth_number e txn) = aid txn"
  "app_label (extract_auth_number e txn) = app_label txn"
  "cvm_result (extract_auth_number e txn) = cvm_result txn"
  "tvr (extract_auth_number e txn) = tvr txn"
  "tac_sequence (extract_auth_number e txn) = tac_sequence txn"
  "is_quickchip (extract_auth_number e txn) = is_quickchip txn"
  "card_type (extract_auth_number e txn) = card_type txn"
  by (simp_all add: extract_auth_number_def split: option.splits)

lemma extract_tender_type_others [simp]:
  "entry_method (extract_tender_type e txn) = entry_method txn"
  "aid (extract_tender_type e txn) = aid txn"
  "app_label (extract_tender_type e txn) = app_label txn"
  "cvm_result (extract_tender_type e txn) = cvm_result txn"
  "tvr (extract_tender_type e txn) = tvr txn"
  "tac_sequence (extract_tender_type e txn) = tac_sequence txn"
  "is_quickchip (extract_tender_type e txn) = is_quickchip txn"
  "authorization_number (extract_tender_type e txn) = authorization_number txn"
  by (simp_all add: extract_tender_type_def Let_def split: option.splits)


text \<open>The field of each extractor after it ran.\<close>

lemma extract_card_entry_own:
  "entry_method (extract_card_entry e txn) =
     (case re_search PATTERNS_card_entry (message e) of
        Some m \<Rightarrow>
          if category e = ''DLL-EX'' \<or> category e = ''TCP/IP'' then grp m 1
          else entry_method txn
      | None \<Rightarrow> entry_method txn)"
  by (simp add: extract_card_entry_def split: option.splits)

lemma extract_aid_own:
  "aid (extract_aid e txn) =
     (case re_search PATTERNS_aid (message e) of Some m \<Rightarrow> grp m 1 | None \<Rightarrow> aid txn)"
  by (simp add: extract_aid_def split: option.splits)

lemma extract_app_label_own:
  "app_label (extract_app_label e txn) =
     (case re_search PATTERNS_app_label (message e) of
        Some m \<Rightarrow> strip (grp m 1) | None \<Rightarrow> app_label txn)"
  by (simp add: extract_app_label_def split: option.splits)

lemma extract_cvm_result_own:
  "cvm_result (extract_cvm_result e txn) =
     (case re_search PATTERNS_cvm_result (message e) of
        Some m \<Rightarrow> if grp m 1 = ''3F0000'' then cvm_result txn else grp m 1
      | None \<Rightarrow> cvm_result txn)"
  by (simp add: extract_cvm_result_def split: option.splits)

lemma extract_tvr_own:
  "tvr (extract_tvr e txn) =
     (case re_search PATTERNS_tvr (message e) of Some m \<Rightarrow> grp m 1 | None \<Rightarrow> tvr txn)"
  by (simp add: extract_tvr_def split: option.splits)

lemma extract_cmd_sequence_own:
  "tac_sequence (extract_cmd_sequence e txn) =
     (case re_search PATTERNS_cmd_sequence (message e) of
        Some m \<Rightarrow> strip (grp m 1) | None \<Rightarrow> tac_sequence txn)"
  by (simp add: extract_cmd_sequence_def split: option.splits)

lemma extract_auth_number_own:
  "authorization_number (extract_auth_number e txn) =
     (case re_search PATTERNS_auth_number (message e) of
        Some m \<Rightarrow> if category e = ''TCP/IP'' then grp m 1 else authorization_number txn
      | None \<Rightarrow> authorization_number txn)"
  by (simp add: extract_auth_number_def split: option.splits)

lemma extract_tender_type_own:
  "card_type (extract_tender_type e txn) =
     (case re_search PATTERNS_tender_type (message e) of
        Some m \<Rightarrow>
          if str_contains ''Debit'' (strip (grp m 1)) then ''Debit''
          else if str_contains ''Credit'' (strip (grp m 1)) then ''Credit''
          else if str_contains ''EBT Food'' (strip (grp m 1))
                  \<or> str_contains ''Food Stamp'' (strip (grp m 1)) then ''EBT Food''
          else if str_contains ''EBT Cash'' (strip (grp m 1)) then ''EBT Cash''
          else card_type txn
      | None \<Rightarrow> card_type txn)"
  by (simp add: extract_tender_type_def Let_def split: option.splits)

text \<open>
  C1, amended: the per-entry extractors of \<^verbatim>\<open>_extract_fields\<close> are last-match-wins.
  For every transaction in progress and every entry, after the extractors ran, the entry
  method, the AID, the app label, the TVR, the TAC sequence and the authorization number
  hold the value captured from this entry whenever the entry matches the pattern of the
  field (and, for the entry method, has category DLL-EX or TCP/IP; for the authorization
  number, category TCP/IP), whatever the field held before; the card type holds the type
  derived from the tender name of this entry whenever the name contains Debit, Credit,
  EBT Food, Food Stamp or EBT Cash; the CVM result is overwritten in the same way, except
  that the placeholder \<^verbatim>\<open>3F0000\<close> leaves it unchanged. A field whose pattern the entry
  does not match keeps its value.
\<close>

theorem per_entry_extractors_overwrite:
  "entry_method (extract_fields txn e) =
     (case re_search PATTERNS_card_entry (message e) of
        Some m \<Rightarrow>
          if category e = ''DLL-EX'' \<or> category e = ''TCP/IP'' then grp m 1
          else entry_method txn
      | None \<Rightarrow> entry_method txn) \<and>
   aid (extract_fields txn e) =
     (case re_search PATTERNS_aid (message e) of Some m \<Rightarrow> grp m 1 | None \<Rightarrow> aid txn) \<and>
   app_label (extract_fields txn e) =
     (case re_search PATTERNS_app_label (message e) of
        Some m \<Rightarrow> strip (grp m 1) | None \<Rightarrow> app_label txn) \<and>
   tvr (extract_fields txn e) =
     (case re_search PATTERNS_tvr (message e) of Some m \<Rightarrow> grp m 1 | None \<Rightarrow> tvr txn) \<and>
   tac_sequence (extract_fields txn e) =
     (case re_search PATTERNS_cmd_sequence (message e) of
        Some m \<Rightarrow> strip (grp m 1) | None \<Rightarrow> tac_sequence txn) \<and>
   authorization_number (extract_fields txn e) =
     (case re_search PATTERNS_auth_number (message e) of
        Some m \<Rightarrow> if category e = ''TCP/IP'' then grp m 1 else authorization_number txn
      | None \<Rightarrow> authorization_number txn) \<and>
   card_type (extract_fields txn e) =
     (case re_search PATTERNS_tender_type (message e) of
        Some m \<Rightarrow>
          if str_contains ''Debit'' (strip (grp m 1)) then ''Debit''
          else if str_contains ''Credit'' (strip (grp m 1)) then ''Credit''
          else if str_contains ''EBT Food'' (strip (grp m 1))
                  \<or> str_contains ''Food Stamp'' (strip (grp m 1)) then ''EBT Food''
          else if str_contains ''EBT Cash'' (strip (grp m 1)) then ''EBT Cash''
          else card_type txn
      | None \<Rightarrow> card_type txn) \<and>
   cvm_result (extract_fields txn e) =
     (case re_search PATTERNS_cvm_result (message e) of
        Some m \<Rightarrow> if grp m 1 = ''3F0000'' then cvm_result txn else grp m 1
      | None \<Rightarrow> cvm_result txn)"
  unfolding extract_fields_def
  by (simp only: extract_card_entry_others extract_aid_others extract_app_label_others
      extract_cvm_result_others extract_tvr_others extract_cmd_sequence_others
      extract_quickchip_others extract_auth_number_others extract_tender_type_others
      extract_card_entry_own extract_aid_own extract_app_label_own extract_cvm_result_own
      extract_tvr_own extract_cmd_sequence_own extract_auth_number_own
      extract_tender_type_own simp_thms)

lemma first_aid_line_searches:
  "re_search PATTERNS_begin_order ''AppID >A0000000041010<'' = None"
  "re_search PATTERNS_card_entry ''AppID >A0000000041010<'' = None"
  "re_search PATTERNS_app_label ''AppID >A0000000041010<'' = None"
  "re_search PATTERNS_cvm_result ''AppID >A0000000041010<'' = None"
  "re_search PATTERNS_tvr ''AppID >A0000000041010<'' = None"
  "re_search PATTERNS_cmd_sequence ''AppID >A0000000041010<'' = None"
  "re_search PATTERNS_quickchip ''AppID >A0000000041010<'' = None"
  "re_search PATTERNS_auth_number ''AppID >A0000000041010<'' = None"
  "re_search PATTERNS_tender_type ''AppID >A0000000041010<'' = None"
  "re_search PATTERNS_se_send ''AppID >A0000000041010<'' = None"
  "re_search PATTERNS_se_recv ''AppID >A0000000041010<'' = None"
  "re_search PATTERNS_response_code ''AppID >A0000000041010<'' = None"
  "re_search PATTERNS_host_response ''AppID >A0000000041010<'' = None"
  "re_search PATTERNS_end_order ''AppID >A0000000041010<'' = None"
  "re_search PATTERNS_reset_clear_end ''AppID >A0000000041010<'' = None"
  "re_search PATTERNS_send_ack_fail ''AppID >A0000000041010<'' = None"
  "re_search PATTERNS_scat_state ''AppID >A0000000041010<'' = None"
  "re_search PATTERNS_aid ''AppID >A0000000041010<'' = Some [(1, ''A0000000041010'')]"
  by (simp_all add: PATTERNS_begin_order_def PATTERNS_card_entry_def PATTERNS_app_label_def PATTERNS_cvm_result_def PATTERNS_tvr_def PATTERNS_cmd_sequence_def PATTERNS_quickchip_def PATTERNS_auth_number_def PATTERNS_tender_type_def PATTERNS_se_send_def PATTERNS_se_recv_def PATTERNS_response_code_def PATTERNS_host_response_def PATTERNS_end_order_def PATTERNS_reset_clear_end_def PATTERNS_send_ack_fail_def PATTERNS_scat_state_def PATTERNS_aid_def
      class_defs text_defs)

lemma second_aid_line_searches:
  "re_search PATTERNS_begin_order ''AppID >A0000000031010<'' = None"
  "re_search PATTERNS_card_entry ''AppID >A0000000031010<'' = None"
  "re_search PATTERNS_app_label ''AppID >A0000000031010<'' = None"
  "re_search PATTERNS_cvm_result ''AppID >A0000000031010<'' = None"
  "re_search PATTERNS_tvr ''AppID >A0000000031010<'' = None"
  "re_search PATTERNS_cmd_sequence ''AppID >A0000000031010<'' = None"
  "re_search PATTERNS_quickchip ''AppID >A0000000031010<'' = None"
  "re_search PATTERNS_auth_number ''AppID >A0000000031010<'' = None"
  "re_search PATTERNS_tender_type ''AppID >A0000000031010<'' = None"
  "re_search PATTERNS_se_send ''AppID >A0000000031010<'' = None"
  "re_search PATTERNS_se_recv ''AppID >A0000000031010<'' = None"
  "re_search PATTERNS_response_code ''AppID >A0000000031010<'' = None"
  "re_search PATTERNS_host_response ''AppID >A0000000031010<'' = None"
  "re_search PATTERNS_end_order ''AppID >A0000000031010<'' = None"
  "re_search PATTERNS_reset_clear_end ''AppID >A0000000031010<'' = None"
  "re_search PATTERNS_send_ack_fail ''AppID >A0000000031010<'' = None"
  "re_search PATTERNS_scat_state ''AppID >A0000000031010<'' = None"
  "re_search PATTERNS_aid ''AppID >A0000000031010<'' = Some [(1, ''A0000000031010'')]"
  by (simp_all add: PATTERNS_begin_order_def PATTERNS_card_entry_def PATTERNS_app_label_def PATTERNS_cvm_result_def PATTERNS_tvr_def PATTERNS_cmd_sequence_def PATTERNS_quickchip_def PATTERNS_auth_number_def PATTERNS_tender_type_def PATTERNS_se_send_def PATTERNS_se_recv_def PATTERNS_response_code_def PATTERNS_host_response_def PATTERNS_end_order_def PATTERNS_reset_clear_end_def PATTERNS_send_ack_fail_def PATTERNS_scat_state_def PATTERNS_aid_def
      class_defs text_defs)


text \<open>
  C1, as the specification states it, fails. In a transaction whose terminal reports the
  application identifier twice, the AID is \<^verbatim>\<open>A0000000041010\<close> after the first report
  (the transaction flushed after two entries has it) and \<^verbatim>\<open>A0000000031010\<close> when the
  transaction completes: the second report has overwritten a field that was set.
\<close>

theorem first_match_wins_counterexample:
  "(case txn_process_entries (take 2 two_aid_example) of
      Inr [txn] \<Rightarrow> aid txn = ''A0000000041010''
    | _ \<Rightarrow> False) \<and>
   (case txn_process_entries two_aid_example of
      Inr [txn] \<Rightarrow> aid txn = ''A0000000031010''
    | _ \<Rightarrow> False)"
  by (simp add: two_aid_example_def make_entry_def txn_process_entries_def
      segmenter_init_def step_defs extractor_defs TransactionData_def grp_def group_def
      begin_order_line_searches first_aid_line_searches second_aid_line_searches
      end_order_line_searches
      del: re_search.simps)

text \<open>
  The amended C1 at a transaction whose AID is set and the second report of the example.
\<close>

theorem per_entry_extractors_overwrite_witness:
  "aid (extract_fields (TransactionData\<lparr>aid := ''A0000000041010''\<rparr>)
          (make_entry 3 (at_time 8 6 26 0) ''TCP/IP'' ''AppID >A0000000031010<'')) =
     ''A0000000031010''"
  using per_entry_extractors_overwrite
          [of "TransactionData\<lparr>aid := ''A0000000041010''\<rparr>"
              "make_entry 3 (at_time 8 6 26 0) ''TCP/IP'' ''AppID >A0000000031010<''"]
  by (simp add: make_entry_def second_aid_line_searches grp_def group_def
      del: re_search.simps)

end
